theory Spec2Isabelle
  imports Complex_Main
begin

section \<open>NumPy floating-point values\<close>

text \<open>
  The statistics of \<^verbatim>\<open>bootstrap.py\<close> and \<^verbatim>\<open>keyness.py\<close> are computed on NumPy
  numbers. A value is a finite number, one of the two infinities, or NaN. The special
  values follow IEEE 754 as NumPy implements it: an operation on scalars or arrays never
  raises, a division by zero yields an infinity or NaN (with a warning only), NaN
  propagates, and every ordered comparison with NaN is false. The sign of zero is not
  modelled. The operations of this section are exact on finite values; they serve the
  bootstrap test and the construction of the observed table. The keyness statistics
  take the finite arithmetic of the machine as a parameter (see below).
\<close>

datatype npfloat = Fin real | PInf | NInf | NaN

fun np_neg :: "npfloat \<Rightarrow> npfloat" where
  "np_neg (Fin a) = Fin (- a)"
| "np_neg PInf = NInf"
| "np_neg NInf = PInf"
| "np_neg NaN = NaN"

fun np_add :: "npfloat \<Rightarrow> npfloat \<Rightarrow> npfloat" where
  "np_add NaN y = NaN"
| "np_add x NaN = NaN"
| "np_add (Fin a) (Fin b) = Fin (a + b)"
| "np_add PInf NInf = NaN"
| "np_add NInf PInf = NaN"
| "np_add PInf y = PInf"
| "np_add x PInf = PInf"
| "np_add NInf y = NInf"
| "np_add x NInf = NInf"

definition np_sub :: "npfloat \<Rightarrow> npfloat \<Rightarrow> npfloat" where
  "np_sub x y = np_add x (np_neg y)"

text \<open>The sign of a value: \<open>1\<close>, \<open>0\<close> or \<open>-1\<close>; NaN has none and is handled before.\<close>

fun np_sign :: "npfloat \<Rightarrow> int" where
  "np_sign (Fin a) = (if 0 < a then 1 else if a < 0 then - 1 else 0)"
| "np_sign PInf = 1"
| "np_sign NInf = - 1"
| "np_sign NaN = 0"

definition inf_of_sign :: "int \<Rightarrow> npfloat" where
  "inf_of_sign s = (if 0 < s then PInf else if s < 0 then NInf else NaN)"

fun np_mul :: "npfloat \<Rightarrow> npfloat \<Rightarrow> npfloat" where
  "np_mul NaN y = NaN"
| "np_mul x NaN = NaN"
| "np_mul (Fin a) (Fin b) = Fin (a * b)"
| "np_mul x y = inf_of_sign (np_sign x * np_sign y)"

fun np_div :: "npfloat \<Rightarrow> npfloat \<Rightarrow> npfloat" where
  "np_div NaN y = NaN"
| "np_div x NaN = NaN"
| "np_div (Fin a) (Fin b) = (if b \<noteq> 0 then Fin (a / b) else inf_of_sign (np_sign (Fin a)))"
| "np_div (Fin a) y = Fin 0"
| "np_div x (Fin b) = (if b < 0 then np_neg x else x)"
| "np_div x y = NaN"

fun np_log :: "npfloat \<Rightarrow> npfloat" where
  "np_log (Fin a) = (if 0 < a then Fin (ln a) else if a = 0 then NInf else NaN)"
| "np_log PInf = PInf"
| "np_log NInf = NaN"
| "np_log NaN = NaN"

fun np_gt :: "npfloat \<Rightarrow> npfloat \<Rightarrow> bool" where
  "np_gt NaN y = False"
| "np_gt x NaN = False"
| "np_gt (Fin a) (Fin b) = (b < a)"
| "np_gt PInf y = (y \<noteq> PInf)"
| "np_gt x NInf = (x \<noteq> NInf)"
| "np_gt x y = False"

text \<open>\<^verbatim>\<open>ndarray.sum()\<close> of a one-dimensional array, starting from zero.\<close>

definition np_sum :: "npfloat list \<Rightarrow> npfloat" where
  "np_sum xs = foldl np_add (Fin 0) xs"

section \<open>Contingency tables (\<^verbatim>\<open>keyness.py\<close>)\<close>

text \<open>
  A contingency table is a NumPy array of shape \<open>(2, 2)\<close>, stored as its two rows. The
  code reads it only at the literal indices \<open>0\<close> and \<open>1\<close>, which the index type
  \<open>idx\<close> represents.
\<close>

datatype idx = I0 | I1

datatype table = Table "npfloat \<times> npfloat" "npfloat \<times> npfloat"

fun pick :: "idx \<Rightarrow> 'a \<times> 'a \<Rightarrow> 'a" where
  "pick I0 (x, y) = x"
| "pick I1 (x, y) = y"

text \<open>\<^verbatim>\<open>observed[i, :]\<close>, \<^verbatim>\<open>observed[:, j]\<close> and \<^verbatim>\<open>observed[i, j]\<close>.\<close>

fun row_slice :: "table \<Rightarrow> idx \<Rightarrow> npfloat list" where
  "row_slice (Table r0 r1) i = (case pick i (r0, r1) of (x, y) \<Rightarrow> [x, y])"

fun col_slice :: "table \<Rightarrow> idx \<Rightarrow> npfloat list" where
  "col_slice (Table r0 r1) j = [pick j r0, pick j r1]"

fun cell :: "table \<Rightarrow> idx \<Rightarrow> idx \<Rightarrow> npfloat" where
  "cell (Table r0 r1) i j = pick j (pick i (r0, r1))"

text \<open>\<^verbatim>\<open>observed.sum()\<close>: the sum of all four cells, in storage order.\<close>

fun table_sum :: "table \<Rightarrow> npfloat" where
  "table_sum (Table (a, b) (c, d)) = np_sum [a, b, c, d]"

section \<open>The machine arithmetic of the keyness statistics\<close>

text \<open>
  \<^verbatim>\<open>compute_expected\<close> and \<^verbatim>\<open>compute_log_likelihood_from_observed\<close> compute in the
  arithmetic of the table's dtype: \<^verbatim>\<open>int64\<close> sums and products wrap at \<open>2^63\<close>,
  \<^verbatim>\<open>float64\<close> operations round and overflow to an infinity, \<^verbatim>\<open>/\<close> and \<^verbatim>\<open>log\<close>
  always produce a \<^verbatim>\<open>float64\<close>. What these operations return on two finite values is
  a parameter of the model, a \<open>machine\<close>:
  \<^item> \<open>arr_add\<close> and \<open>arr_mul\<close> are \<^verbatim>\<open>+\<close> and \<^verbatim>\<open>*\<close> on two elements of the table's dtype;
  \<^item> \<open>to_float\<close> converts a number to \<^verbatim>\<open>float64\<close> (a table element entering a float
    operation or a comparison, the literal \<^verbatim>\<open>1e-20\<close>);
  \<^item> \<open>flt_add\<close>, \<open>flt_mul\<close>, \<open>flt_div\<close> (divisor not zero) and \<open>flt_log\<close> (argument
    positive) are the \<^verbatim>\<open>float64\<close> operations, an integer operand converted first.
  A value of a table is the number the machine value stands for. On an infinity, NaN, a
  zero divisor or a non-positive argument of the logarithm the operations follow
  IEEE 754 as above, whatever the machine.
\<close>

record machine =
  arr_add :: "real \<Rightarrow> real \<Rightarrow> npfloat"
  arr_mul :: "real \<Rightarrow> real \<Rightarrow> npfloat"
  to_float :: "real \<Rightarrow> npfloat"
  flt_add :: "real \<Rightarrow> real \<Rightarrow> npfloat"
  flt_mul :: "real \<Rightarrow> real \<Rightarrow> npfloat"
  flt_div :: "real \<Rightarrow> real \<Rightarrow> npfloat"
  flt_log :: "real \<Rightarrow> npfloat"

definition on_finite ::
  "(real \<Rightarrow> real \<Rightarrow> npfloat) \<Rightarrow> (npfloat \<Rightarrow> npfloat \<Rightarrow> npfloat)
     \<Rightarrow> npfloat \<Rightarrow> npfloat \<Rightarrow> npfloat" where
  "on_finite op special x y =
     (case x of
        Fin a \<Rightarrow> (case y of Fin b \<Rightarrow> op a b | _ \<Rightarrow> special x y)
      | _ \<Rightarrow> special x y)"

definition m_add :: "machine \<Rightarrow> npfloat \<Rightarrow> npfloat \<Rightarrow> npfloat" where
  "m_add M = on_finite (arr_add M) np_add"

definition m_mul :: "machine \<Rightarrow> npfloat \<Rightarrow> npfloat \<Rightarrow> npfloat" where
  "m_mul M = on_finite (arr_mul M) np_mul"

definition f_add :: "machine \<Rightarrow> npfloat \<Rightarrow> npfloat \<Rightarrow> npfloat" where
  "f_add M = on_finite (flt_add M) np_add"

definition f_mul :: "machine \<Rightarrow> npfloat \<Rightarrow> npfloat \<Rightarrow> npfloat" where
  "f_mul M = on_finite (flt_mul M) np_mul"

definition true_divide :: "machine \<Rightarrow> npfloat \<Rightarrow> npfloat \<Rightarrow> npfloat" where
  "true_divide M =
     on_finite (\<lambda>a b. if b = 0 then np_div (Fin a) (Fin b) else flt_div M a b) np_div"

definition f_log :: "machine \<Rightarrow> npfloat \<Rightarrow> npfloat" where
  "f_log M x = (case x of Fin a \<Rightarrow> if 0 < a then flt_log M a else np_log x | _ \<Rightarrow> np_log x)"

definition as_float :: "machine \<Rightarrow> npfloat \<Rightarrow> npfloat" where
  "as_float M x = (case x of Fin a \<Rightarrow> to_float M a | _ \<Rightarrow> x)"

text \<open>\<^verbatim>\<open>ndarray.sum()\<close> in the table's dtype: the elements are added in storage order.\<close>

definition arr_sum :: "machine \<Rightarrow> npfloat list \<Rightarrow> npfloat" where
  "arr_sum M xs = (case xs of [] \<Rightarrow> Fin 0 | x # ys \<Rightarrow> foldl (m_add M) x ys)"

fun flat :: "table \<Rightarrow> npfloat list" where
  "flat (Table (a, b) (c, d)) = [a, b, c, d]"

text \<open>The module constant \<^verbatim>\<open>_SMALL = 1e-20\<close>: the \<^verbatim>\<open>float64\<close> of that literal.\<close>

definition SMALL :: "machine \<Rightarrow> npfloat" where
  "SMALL M = to_float M (1 / 10 ^ 20)"

definition compute_expected :: "machine \<Rightarrow> table \<Rightarrow> table" where
  "compute_expected M observed =
     Table
       (true_divide M
          (m_mul M (arr_sum M (row_slice observed I0)) (arr_sum M (col_slice observed I0)))
          (arr_sum M (flat observed)),
        true_divide M
          (m_mul M (arr_sum M (row_slice observed I0)) (arr_sum M (col_slice observed I1)))
          (arr_sum M (flat observed)))
       (true_divide M
          (m_mul M (arr_sum M (row_slice observed I1)) (arr_sum M (col_slice observed I0)))
          (arr_sum M (flat observed)),
        true_divide M
          (m_mul M (arr_sum M (row_slice observed I1)) (arr_sum M (col_slice observed I1)))
          (arr_sum M (flat observed)))"

text \<open>
  The double loop \<^verbatim>\<open>for i in [0, 1]: for j in [0, 1]: sum_likelihood += ...\<close> as a
  fold over the index pairs in the order the loops visit them. The sum starts from the
  integer \<open>0\<close>, every addition and multiplication has a \<^verbatim>\<open>float64\<close> operand, and the
  comparison converts the observed cell to \<^verbatim>\<open>float64\<close>.
\<close>

definition likelihood_term :: "machine \<Rightarrow> table \<Rightarrow> table \<Rightarrow> idx \<times> idx \<Rightarrow> npfloat" where
  "likelihood_term M observed expected ij =
     (case ij of (i, j) \<Rightarrow>
        f_mul M (cell observed i j)
          (f_log M (true_divide M (f_add M (cell observed i j) (SMALL M))
                                  (f_add M (cell expected i j) (SMALL M)))))"

definition loop_indices :: "(idx \<times> idx) list" where
  "loop_indices = concat (map (\<lambda>i. map (\<lambda>j. (i, j)) [I0, I1]) [I0, I1])"

definition compute_log_likelihood_from_observed :: "machine \<Rightarrow> table \<Rightarrow> npfloat \<times> string" where
  "compute_log_likelihood_from_observed M observed =
     (let expected = compute_expected M observed;
          sum_likelihood =
            foldl (\<lambda>acc ij. f_add M acc (likelihood_term M observed expected ij))
              (Fin 0) loop_indices
      in (f_mul M (Fin 2) sum_likelihood,
          if np_gt (as_float M (cell observed I0 I0)) (cell expected I0 I0)
          then ''more'' else ''less''))"

section \<open>Rows and totals of the frequency table (\<^verbatim>\<open>keyness.py\<close>)\<close>

text \<open>
  A Python exception is a value; a function that may raise returns a sum whose left
  side is the exception.
\<close>

datatype py_error = ValueError | ZeroDivisionError | IndexError | KeyError

fun bind_err :: "py_error + 'a \<Rightarrow> ('a \<Rightarrow> py_error + 'b) \<Rightarrow> py_error + 'b" where
  "bind_err (Inl e) f = Inl e"
| "bind_err (Inr x) f = f x"

text \<open>
  A keyword row is a dictionary from column label to count (\<^verbatim>\<open>row: Dict\<close>); the
  totals frame maps a category label to its \<^verbatim>\<open>target_freq\<close> and \<^verbatim>\<open>ref_freq\<close>.
  Reading a missing label raises \<^verbatim>\<open>KeyError\<close>.
\<close>

type_synonym row = "string \<rightharpoonup> npfloat"

record totals_row =
  target_freq :: npfloat
  ref_freq :: npfloat

type_synonym totals = "string \<rightharpoonup> totals_row"

definition getitem :: "('k \<rightharpoonup> 'v) \<Rightarrow> 'k \<Rightarrow> py_error + 'v" where
  "getitem m k = (case m k of None \<Rightarrow> Inl KeyError | Some v \<Rightarrow> Inr v)"

definition get_complement_from_row :: "row \<Rightarrow> string \<Rightarrow> py_error + npfloat" where
  "get_complement_from_row row source =
     bind_err (getitem row ''Total'') (\<lambda>total.
     bind_err (getitem row source) (\<lambda>v. Inr (np_sub total v)))"

definition get_observed_from_row :: "row \<Rightarrow> string \<Rightarrow> totals \<Rightarrow> py_error + table" where
  "get_observed_from_row row source totals =
     bind_err (getitem row source) (\<lambda>t_target.
     bind_err (get_complement_from_row row source) (\<lambda>t_ref.
     bind_err (getitem totals source) (\<lambda>tr1.
     let nt_target = np_sub (target_freq tr1) t_target in
     bind_err (getitem totals source) (\<lambda>tr2.
     let nt_ref = np_sub (ref_freq tr2) t_ref in
     Inr (Table (t_target, t_ref) (nt_target, nt_ref))))))"

definition compute_log_likelihood_from_row ::
  "machine \<Rightarrow> row \<Rightarrow> string \<Rightarrow> totals \<Rightarrow> py_error + npfloat" where
  "compute_log_likelihood_from_row M row source totals =
     bind_err (get_observed_from_row row source totals) (\<lambda>observed.
     case compute_log_likelihood_from_observed M observed of (ll, sign) \<Rightarrow> Inr ll)"

text \<open>
  The keyword-by-category frequency table is a data frame: its index (the keywords), its
  column labels (the categories and \<^verbatim>\<open>Total\<close>) and the value of every cell. Column
  labels are taken to be distinct. \<^verbatim>\<open>DataFrame.sum()\<close> adds each column over the index
  and skips NaN entries.
\<close>

record dataframe =
  df_index :: "string list"
  df_columns :: "string list"
  df_value :: "string \<Rightarrow> string \<Rightarrow> npfloat"

definition df_sum :: "dataframe \<Rightarrow> (string \<times> npfloat) list" where
  "df_sum df =
     map (\<lambda>c. (c, np_sum (filter (\<lambda>v. v \<noteq> NaN) (map (\<lambda>k. df_value df k c) (df_index df)))))
       (df_columns df)"

definition compute_category_totals :: "dataframe \<Rightarrow> py_error + totals" where
  "compute_category_totals keyword_cat_freq =
     (let keyword_cat_totals = df_sum keyword_cat_freq in
      bind_err (getitem (map_of keyword_cat_totals) ''Total'') (\<lambda>total.
      Inr (map_of (map (\<lambda>(c, t). (c, \<lparr>target_freq = t, ref_freq = np_sub total t\<rparr>))
                    keyword_cat_totals))))"

section \<open>Bootstrap resampling (\<^verbatim>\<open>bootstrap.py\<close>)\<close>

text \<open>
  The process-wide random source is an unbounded stream of raw draws; a call that
  consumes entropy returns the remaining stream. Nothing is assumed of the stream, so a
  statement for every stream covers every outcome of the generator.
\<close>

type_synonym rng = "nat \<Rightarrow> nat"

definition rng_next :: "rng \<Rightarrow> nat \<times> rng" where
  "rng_next g = (g 0, \<lambda>k. g (Suc k))"

fun draw :: "int \<Rightarrow> int \<Rightarrow> nat \<Rightarrow> rng \<Rightarrow> int list \<times> rng" where
  "draw low high 0 g = ([], g)"
| "draw low high (Suc n) g =
     (case rng_next g of (r, g1) \<Rightarrow>
      case draw low high n g1 of (xs, g2) \<Rightarrow>
        ((low + int r mod (high - low)) # xs, g2))"

text \<open>
  \<^verbatim>\<open>np.random.randint(low, high, size)\<close>: an empty request returns the empty array
  before the bounds are looked at; otherwise an empty range \<open>low \<ge> high\<close> or a negative
  size raises \<^verbatim>\<open>ValueError\<close>; otherwise that many integers of \<open>[low, high)\<close>.
\<close>

definition randint :: "int \<Rightarrow> int \<Rightarrow> int \<Rightarrow> rng \<Rightarrow> py_error + (int list \<times> rng)" where
  "randint low high count g =
     (if count = 0 then Inr ([], g)
      else if high \<le> low \<or> count < 0 then Inl ValueError
      else Inr (draw low high (nat count) g))"

text \<open>
  \<^verbatim>\<open>sample[resample_index]\<close>: indexing an array by an integer array. A negative index
  counts from the end; an index outside the array raises \<^verbatim>\<open>IndexError\<close>.
\<close>

fun np_take :: "'a list \<Rightarrow> int list \<Rightarrow> py_error + 'a list" where
  "np_take xs [] = Inr []"
| "np_take xs (i # is) =
     (let n = int (length xs); j = (if i < 0 then n + i else i)
      in if 0 \<le> j \<and> j < n
         then bind_err (np_take xs is) (\<lambda>ys. Inr (xs ! nat j # ys))
         else Inl IndexError)"

definition resample :: "'a list \<Rightarrow> int \<Rightarrow> rng \<Rightarrow> py_error + ('a list \<times> rng)" where
  "resample sample resample_length g =
     bind_err (randint 0 (int (length sample)) resample_length g) (\<lambda>(resample_index, g1).
     bind_err (np_take sample resample_index) (\<lambda>r. Inr (r, g1)))"

text \<open>A pair of resamples as one trial draws it: the first sample before the second.\<close>

abbreviation resampled_pair :: "'a list \<Rightarrow> 'a list \<Rightarrow> 'a list \<Rightarrow> 'a list \<Rightarrow> bool" where
  "resampled_pair sample1 sample2 r1 r2 \<equiv>
     \<exists>ga gb gc. resample sample1 (int (length sample1)) ga = Inr (r1, gb) \<and>
                resample sample2 (int (length sample2)) gb = Inr (r2, gc)"

text \<open>
  The body of the loop \<^verbatim>\<open>for n in range(num_samples)\<close> on the loop's state: the two
  lists being appended to and the random source. The statistic is a pure function of
  the resample.
\<close>

type_synonym loop_state = "npfloat list \<times> int list \<times> rng"

definition trial ::
  "('a list \<Rightarrow> npfloat) \<Rightarrow> 'a list \<Rightarrow> 'a list \<Rightarrow> loop_state \<Rightarrow> py_error + loop_state" where
  "trial stat_func sample1 sample2 st =
     (case st of (resampled_stats, resampled_signs, g) \<Rightarrow>
      bind_err (resample sample1 (int (length sample1)) g) (\<lambda>(resample1, g1).
      bind_err (resample sample2 (int (length sample2)) g1) (\<lambda>(resample2, g2).
      let res1 = stat_func resample1;
          res2 = stat_func resample2;
          (stat, sign) =
            (if np_gt res2 (Fin 0)
             then (let stat = np_div res1 res2
                   in (stat, if np_gt stat (Fin 1) then 1 else 0))
             else (if np_gt res1 (Fin 0) then PInf else Fin 0,
                   if np_gt res1 (Fin 0) then 1 else 0))
      in Inr (resampled_stats @ [stat], resampled_signs @ [sign], g2))))"

fun trials ::
  "nat \<Rightarrow> ('a list \<Rightarrow> npfloat) \<Rightarrow> 'a list \<Rightarrow> 'a list \<Rightarrow> loop_state \<Rightarrow> py_error + loop_state" where
  "trials 0 stat_func sample1 sample2 st = Inr st"
| "trials (Suc k) stat_func sample1 sample2 st =
     bind_err (trial stat_func sample1 sample2 st) (trials k stat_func sample1 sample2)"

text \<open>Python's \<^verbatim>\<open>/\<close> on two integers.\<close>

definition py_truediv :: "int \<Rightarrow> int \<Rightarrow> py_error + real" where
  "py_truediv a b = (if b = 0 then Inl ZeroDivisionError else Inr (real_of_int a / real_of_int b))"

text \<open>
  The result is the p-value and the array \<^verbatim>\<open>np.array([resampled_stats,
  resampled_signs])\<close> of two rows, the signs converted to floats, together with the
  random source left over. \<^verbatim>\<open>range(num_samples)\<close> is empty for \<open>num_samples \<le> 0\<close>.
\<close>

definition two_sample_bootstrap_test ::
  "'a list \<Rightarrow> 'a list \<Rightarrow> ('a list \<Rightarrow> npfloat) \<Rightarrow> int \<Rightarrow> rng
     \<Rightarrow> py_error + ((real \<times> npfloat list list) \<times> rng)" where
  "two_sample_bootstrap_test sample1 sample2 stat_func num_samples g =
     bind_err (trials (nat num_samples) stat_func sample1 sample2 ([], [], g))
       (\<lambda>(resampled_stats, resampled_signs, g1).
     bind_err (py_truediv (sum_list resampled_signs) (int (length resampled_signs)))
       (\<lambda>p_value.
     Inr ((p_value, [resampled_stats, map (\<lambda>s. Fin (real_of_int s)) resampled_signs]), g1)))"

text \<open>
  The rule of the specification for one trial, in its words: if \<open>v2 > 0\<close> the ratio is
  \<open>v1 / v2\<close> and the sign is \<open>1\<close> when the ratio exceeds \<open>1.0\<close>; otherwise the ratio is
  \<open>+infinity\<close> when \<open>v1 > 0.0\<close> and \<open>0.0\<close> if not, and the sign is \<open>1\<close> when \<open>v1 > 0.0\<close>.
\<close>

definition spec_ratio :: "npfloat \<Rightarrow> npfloat \<Rightarrow> npfloat" where
  "spec_ratio v1 v2 =
     (if np_gt v2 (Fin 0) then np_div v1 v2 else if np_gt v1 (Fin 0) then PInf else Fin 0)"

definition spec_sign :: "npfloat \<Rightarrow> npfloat \<Rightarrow> int" where
  "spec_sign v1 v2 =
     (if np_gt v2 (Fin 0) then (if np_gt (spec_ratio v1 v2) (Fin 1) then 1 else 0)
      else if np_gt v1 (Fin 0) then 1 else 0)"

text \<open>
  Three machines. \<open>round_f64\<close> is the rounding of IEEE 754 binary64: to the nearest
  number of 53 significant bits (of spacing \<open>2^-1074\<close> below \<open>2^-1022\<close>), a tie to the
  even one, and to an infinity from \<open>2^1024\<close> on. The \<^verbatim>\<open>float64\<close> operations round the
  exact result of the converted operands (the logarithm is taken as correctly rounded;
  nothing below depends on its last bit). \<open>wrap64\<close> is two's complement on 64 bits.
  \<open>float64_machine\<close> is the arithmetic of a table of floats, \<open>int64_machine\<close> that of a
  table of integers, and \<open>exact_machine\<close> is arithmetic without rounding or overflow.
\<close>

definition round_half_even :: "real \<Rightarrow> int" where
  "round_half_even y =
     (let f = \<lfloor>y\<rfloor>; d = y - real_of_int f
      in if d < 1 / 2 then f else if 1 / 2 < d then f + 1 else if even f then f else f + 1)"

definition round_f64 :: "real \<Rightarrow> npfloat" where
  "round_f64 x =
     (if x = 0 then Fin 0
      else let e = max \<lfloor>log 2 \<bar>x\<bar>\<rfloor> (- 1022);
               u = 2 powr real_of_int (e - 52);
               r = real_of_int (round_half_even (\<bar>x\<bar> / u)) * u
           in if 2 ^ 1024 \<le> r then (if 0 < x then PInf else NInf) else Fin (sgn x * r))"

definition f64_add :: "real \<Rightarrow> real \<Rightarrow> npfloat" where
  "f64_add a b = on_finite (\<lambda>a b. round_f64 (a + b)) np_add (round_f64 a) (round_f64 b)"

definition f64_mul :: "real \<Rightarrow> real \<Rightarrow> npfloat" where
  "f64_mul a b = on_finite (\<lambda>a b. round_f64 (a * b)) np_mul (round_f64 a) (round_f64 b)"

definition f64_div :: "real \<Rightarrow> real \<Rightarrow> npfloat" where
  "f64_div a b =
     on_finite (\<lambda>a b. if b = 0 then np_div (Fin a) (Fin b) else round_f64 (a / b)) np_div
       (round_f64 a) (round_f64 b)"

definition f64_log :: "real \<Rightarrow> npfloat" where
  "f64_log a =
     (case round_f64 a of
        Fin b \<Rightarrow> if 0 < b then round_f64 (ln b) else np_log (Fin b)
      | y \<Rightarrow> np_log y)"

definition float64_machine :: machine where
  "float64_machine =
     \<lparr>arr_add = f64_add, arr_mul = f64_mul, to_float = round_f64,
      flt_add = f64_add, flt_mul = f64_mul, flt_div = f64_div, flt_log = f64_log\<rparr>"

definition wrap64 :: "int \<Rightarrow> int" where
  "wrap64 n = (n + 2 ^ 63) mod 2 ^ 64 - 2 ^ 63"

definition int64_machine :: machine where
  "int64_machine =
     \<lparr>arr_add = (\<lambda>a b. Fin (real_of_int (wrap64 (\<lfloor>a\<rfloor> + \<lfloor>b\<rfloor>)))),
      arr_mul = (\<lambda>a b. Fin (real_of_int (wrap64 (\<lfloor>a\<rfloor> * \<lfloor>b\<rfloor>)))),
      to_float = round_f64,
      flt_add = f64_add, flt_mul = f64_mul, flt_div = f64_div, flt_log = f64_log\<rparr>"

definition exact_machine :: machine where
  "exact_machine =
     \<lparr>arr_add = (\<lambda>a b. Fin (a + b)), arr_mul = (\<lambda>a b. Fin (a * b)), to_float = Fin,
      flt_add = (\<lambda>a b. Fin (a + b)), flt_mul = (\<lambda>a b. Fin (a * b)),
      flt_div = (\<lambda>a b. Fin (a / b)), flt_log = (\<lambda>a. Fin (ln a))\<rparr>"

text \<open>A statistic (the sum) and a random source (the stream 0, 1, 2, ...) for the examples.\<close>

definition demo_stat :: "real list \<Rightarrow> npfloat" where
  "demo_stat r = Fin (sum_list r)"

definition demo_rng :: rng where
  "demo_rng k = k"

text \<open>A small frequency table of two keywords and two categories, for the examples.\<close>

definition demo_freq :: dataframe where
  "demo_freq = \<lparr>df_index = [''apple'', ''pear''], df_columns = [''x'', ''y'', ''Total''],
     df_value = (\<lambda>k c. if c = ''Total'' then Fin 3 else if c = ''x'' then Fin 1 else Fin 2)\<rparr>"



section \<open>Properties\<close>

subsection \<open>Rounding and the machines\<close>

lemma round_half_even_int: "round_half_even (real_of_int n) = n"
  by (simp add: round_half_even_def)

text \<open>An integer below \<open>2^53\<close> in magnitude is a \<^verbatim>\<open>float64\<close>: rounding leaves it as it is.\<close>

lemma round_f64_int:
  assumes "x \<in> \<int>" and "\<bar>x\<bar> < 2 ^ 53"
  shows "round_f64 x = Fin x"
proof (cases "x = 0")
  case True
  then show ?thesis by (simp add: round_f64_def)
next
  case False
  from assms(1) obtain n where n: "x = real_of_int n" by (auto elim: Ints_cases)
  with False have "n \<noteq> 0" by simp
  then have one: "1 \<le> \<bar>x\<bar>" using n by simp
  define k where "k = \<lfloor>log 2 \<bar>x\<bar>\<rfloor>"
  from one have "0 \<le> log 2 \<bar>x\<bar>" by simp
  then have k0: "0 \<le> k" by (simp add: k_def)
  have "\<bar>x\<bar> < 2 powr 53" using assms(2) by simp
  with one have "log 2 \<bar>x\<bar> < 53" by (subst log_less_iff) simp_all
  then have "k < 53" by (simp add: k_def floor_less_iff)
  then have k52: "k \<le> 52" by simp
  define j where "j = nat (52 - k)"
  from k52 have j: "int j = 52 - k" by (simp add: j_def)
  have u: "2 powr real_of_int (k - 52) = 1 / 2 ^ j"
  proof -
    have "real_of_int (k - 52) = - real j" using j by simp
    then have "2 powr real_of_int (k - 52) = 2 powr (- real j)" by simp
    also have "\<dots> = 1 / 2 powr real j" by (simp add: powr_minus divide_inverse)
    also have "\<dots> = 1 / 2 ^ j" by (simp add: powr_realpow)
    finally show ?thesis .
  qed
  have q: "\<bar>x\<bar> / (1 / 2 ^ j) = real_of_int (\<bar>n\<bar> * 2 ^ j)" by (simp add: n)
  have r: "real_of_int (round_half_even (\<bar>x\<bar> / (1 / 2 ^ j))) * (1 / 2 ^ j) = \<bar>x\<bar>"
    unfolding q round_half_even_int by (simp add: n)
  have big: "\<bar>x\<bar> < 2 ^ 1024"
  proof -
    have "(2::real) ^ 53 \<le> 2 ^ 1024" by (rule power_increasing) simp_all
    with assms(2) show ?thesis by linarith
  qed
  have mx: "max k (- 1022) = k" using k0 by simp
  have "sgn x * \<bar>x\<bar> = x" by (simp add: sgn_real_def)
  with False big show ?thesis
    unfolding round_f64_def k_def [symmetric] Let_def mx u r
    by simp
qed

text \<open>
  A positive number \<open>x\<close> with \<open>2^e \<le> x < 2^(e+1)\<close> rounds to \<open>m * 2^(e-52)\<close>, where \<open>m\<close>
  is \<open>x / 2^(e-52)\<close> rounded to an integer, a tie to the even one.
\<close>

lemma round_half_even_close: "\<bar>real_of_int (round_half_even y) - y\<bar> \<le> 1 / 2"
proof -
  have "real_of_int \<lfloor>y\<rfloor> \<le> y" and "y < real_of_int \<lfloor>y\<rfloor> + 1" by linarith+
  then show ?thesis by (auto simp: round_half_even_def Let_def)
qed

lemma round_f64_eval:
  assumes pos: "0 < x"
    and lo: "2 powr real_of_int e \<le> x" and hi: "x < 2 powr real_of_int (e + 1)"
    and e1: "- 1022 \<le> e" and e2: "e \<le> 1022"
    and rm: "round_half_even (x * 2 powr real_of_int (52 - e)) = m"
  shows "round_f64 x = Fin (real_of_int m * 2 powr real_of_int (e - 52))"
proof -
  have fl: "\<lfloor>log 2 \<bar>x\<bar>\<rfloor> = e"
    using pos lo hi by (simp add: floor_log_eq_powr_iff)
  have mx: "max e (- 1022) = e" using e1 by simp
  have u: "\<bar>x\<bar> / 2 powr real_of_int (e - 52) = x * 2 powr real_of_int (52 - e)"
  proof -
    have "2 powr real_of_int (52 - e) = 2 powr (- real_of_int (e - 52))" by simp
    also have "\<dots> = 1 / 2 powr real_of_int (e - 52)" by (simp only: powr_minus_divide)
    finally show ?thesis using pos by simp
  qed
  have near: "\<bar>real_of_int m - x * 2 powr real_of_int (52 - e)\<bar> \<le> 1 / 2"
    using round_half_even_close [of "x * 2 powr real_of_int (52 - e)"] by (simp only: rm)
  have p53: "2 powr (53 :: real) = real_of_int (2 ^ 53)" by simp
  have ex1: "real_of_int (e + 1) + real_of_int (52 - e) = 53" by simp
  have ex2: "(53 :: real) + real_of_int (e - 52) = real_of_int (e + 1)" by simp
  have "x * 2 powr real_of_int (52 - e) < 2 powr real_of_int (e + 1) * 2 powr real_of_int (52 - e)"
    using hi by (simp add: mult_strict_right_mono)
  also have "\<dots> = 2 powr 53" by (simp only: powr_add [symmetric] ex1)
  finally have "real_of_int m < real_of_int (2 ^ 53) + 1"
    using near unfolding p53 by linarith
  then have "m \<le> 2 ^ 53" by linarith
  then have "real_of_int m \<le> real_of_int (2 ^ 53)" by (simp only: of_int_le_iff)
  then have "real_of_int m \<le> 2 powr 53" by (simp only: p53)
  then have "real_of_int m * 2 powr real_of_int (e - 52) \<le> 2 powr 53 * 2 powr real_of_int (e - 52)"
    by (simp add: mult_right_mono del: powr_numeral)
  also have "\<dots> = 2 powr real_of_int (e + 1)" by (simp only: powr_add [symmetric] ex2)
  also have "\<dots> \<le> 2 powr 1023" using e2 by (intro powr_mono) simp_all
  also have "\<dots> < 2 ^ 1024" by simp
  finally have small: "\<not> 2 ^ 1024 \<le> real_of_int m * 2 powr real_of_int (e - 52)" by simp
  from pos have s: "sgn x = 1" by simp
  from pos have nz: "x \<noteq> 0" by simp
  show ?thesis
    unfolding round_f64_def Let_def fl mx u rm
    using small s nz by simp
qed

text \<open>
  The roundings met on the table \<^verbatim>\<open>[[12.9, 12.9], [12.9, 12.9]]\<close> and on
  \<^verbatim>\<open>[[0, 1], [2, 0]]\<close>, each by the lemma above.
\<close>

lemma rnd_1:
  "round_f64 (129 / 10) = Fin (7262054399134925 / 562949953421312)"
  using round_f64_eval [where x = "129 / 10" and e = "3" and m = 7262054399134925]
  by (simp add: powr_neg_numeral round_half_even_def)

lemma rnd_2:
  "round_f64 (7262054399134925 / 281474976710656) = Fin (7262054399134925 / 281474976710656)"
  using round_f64_eval [where x = "7262054399134925 / 281474976710656" and e = "4" and m = 7262054399134925]
  by (simp add: powr_neg_numeral round_half_even_def)

lemma rnd_3:
  "round_f64 (21786163197404775 / 562949953421312) = Fin (2723270399675597 / 70368744177664)"
  using round_f64_eval [where x = "21786163197404775 / 562949953421312" and e = "5" and m = 5446540799351194]
  by (simp add: powr_neg_numeral round_half_even_def)

lemma rnd_4:
  "round_f64 (2723270399675597 / 70368744177664) = Fin (2723270399675597 / 70368744177664)"
  using round_f64_eval [where x = "2723270399675597 / 70368744177664" and e = "5" and m = 5446540799351194]
  by (simp add: powr_neg_numeral round_half_even_def)

lemma rnd_5:
  "round_f64 (29048217596539701 / 562949953421312) = Fin (7262054399134925 / 140737488355328)"
  using round_f64_eval [where x = "29048217596539701 / 562949953421312" and e = "5" and m = 7262054399134925]
  by (simp add: powr_neg_numeral round_half_even_def)

lemma rnd_6:
  "round_f64 (52737434095994916580588354755625 / 79228162514264337593543950336) = Fin (5855031359302533 / 8796093022208)"
  using round_f64_eval [where x = "52737434095994916580588354755625 / 79228162514264337593543950336" and e = "9" and m = 5855031359302533]
  by (simp add: powr_neg_numeral round_half_even_def)

lemma rnd_7:
  "round_f64 (5855031359302533 / 8796093022208) = Fin (5855031359302533 / 8796093022208)"
  using round_f64_eval [where x = "5855031359302533 / 8796093022208" and e = "9" and m = 5855031359302533]
  by (simp add: powr_neg_numeral round_half_even_def)

lemma rnd_8:
  "round_f64 (7262054399134925 / 140737488355328) = Fin (7262054399134925 / 140737488355328)"
  using round_f64_eval [where x = "7262054399134925 / 140737488355328" and e = "5" and m = 7262054399134925]
  by (simp add: powr_neg_numeral round_half_even_def)

lemma rnd_9:
  "round_f64 (93680501748840528 / 7262054399134925) = Fin (1815513599783731 / 140737488355328)"
  using round_f64_eval [where x = "93680501748840528 / 7262054399134925" and e = "3" and m = 7262054399134924]
  by (simp add: powr_neg_numeral round_half_even_def)

lemma rnd_10:
  "round_f64 (2 / 3) = Fin (6004799503160661 / 9007199254740992)"
  using round_f64_eval [where x = "2 / 3" and e = "-1" and m = 6004799503160661]
  by (simp add: powr_neg_numeral round_half_even_def)

lemma rnd_11:
  "round_f64 (1 / 3) = Fin (6004799503160661 / 18014398509481984)"
  using round_f64_eval [where x = "1 / 3" and e = "-2" and m = 6004799503160661]
  by (simp add: powr_neg_numeral round_half_even_def)

lemma rnd_12:
  "round_f64 (4 / 3) = Fin (6004799503160661 / 4503599627370496)"
  using round_f64_eval [where x = "4 / 3" and e = "0" and m = 6004799503160661]
  by (simp add: powr_neg_numeral round_half_even_def)

lemma rnd_13:
  "round_f64 (6004799503160661 / 9007199254740992) = Fin (6004799503160661 / 9007199254740992)"
  using round_f64_eval [where x = "6004799503160661 / 9007199254740992" and e = "-1" and m = 6004799503160661]
  by (simp add: powr_neg_numeral round_half_even_def)

lemma rnd_14:
  "round_f64 (6004799503160661 / 18014398509481984) = Fin (6004799503160661 / 18014398509481984)"
  using round_f64_eval [where x = "6004799503160661 / 18014398509481984" and e = "-2" and m = 6004799503160661]
  by (simp add: powr_neg_numeral round_half_even_def)

lemma rnd_15:
  "round_f64 (18014398509481983 / 18014398509481984) = Fin (1)"
  using round_f64_eval [where x = "18014398509481983 / 18014398509481984" and e = "-1" and m = 9007199254740992]
  by (simp add: powr_neg_numeral round_half_even_def)

lemma rnd_16:
  "round_f64 (6004799503160661 / 4503599627370496) = Fin (6004799503160661 / 4503599627370496)"
  using round_f64_eval [where x = "6004799503160661 / 4503599627370496" and e = "0" and m = 6004799503160661]
  by (simp add: powr_neg_numeral round_half_even_def)

lemma rnd_17:
  "round_f64 (10508399130531157 / 4503599627370496) = Fin (2627099782632789 / 1125899906842624)"
  using round_f64_eval [where x = "10508399130531157 / 4503599627370496" and e = "1" and m = 5254199565265578]
  by (simp add: powr_neg_numeral round_half_even_def)

lemma rnd_18:
  "round_f64 (2627099782632789 / 1125899906842624) = Fin (2627099782632789 / 1125899906842624)"
  using round_f64_eval [where x = "2627099782632789 / 1125899906842624" and e = "1" and m = 5254199565265578]
  by (simp add: powr_neg_numeral round_half_even_def)

lemma rnd_19:
  "round_f64 (27021597764222973 / 9007199254740992) = Fin (6755399441055743 / 2251799813685248)"
  using round_f64_eval [where x = "27021597764222973 / 9007199254740992" and e = "1" and m = 6755399441055743]
  by (simp add: powr_neg_numeral round_half_even_def)

lemmas rnd_simps =
  rnd_1 rnd_2 rnd_3 rnd_4 rnd_5 rnd_6 rnd_7 rnd_8 rnd_9 rnd_10
  rnd_11 rnd_12 rnd_13 rnd_14 rnd_15 rnd_16 rnd_17 rnd_18 rnd_19

lemmas machine_simps =
  m_add_def m_mul_def f_add_def f_mul_def true_divide_def f_log_def as_float_def arr_sum_def
  on_finite_def

lemmas int64_simps =
  int64_machine_def wrap64_def f64_add_def f64_mul_def f64_div_def round_f64_int

lemmas float64_simps =
  float64_machine_def f64_add_def f64_mul_def f64_div_def round_f64_int rnd_simps

subsection \<open>The expected table\<close>

lemma true_divide_zero: "true_divide M x (Fin 0) \<in> {NaN, PInf, NInf}"
  by (cases x) (auto simp: true_divide_def on_finite_def inf_of_sign_def)

lemma compute_expected_cell:
  "cell (compute_expected M T) i j =
     true_divide M (m_mul M (arr_sum M (row_slice T i)) (arr_sum M (col_slice T j)))
       (arr_sum M (flat T))"
  by (cases T; cases i; cases j) (auto simp: compute_expected_def)

lemma expected_int64_small:
  "compute_expected int64_machine (Table (Fin 50, Fin 10) (Fin 10, Fin 30)) =
     Table (Fin 36, Fin 24) (Fin 24, Fin 16)"
  by (simp add: compute_expected_def machine_simps int64_simps)

lemma expected_int64_wraps:
  "compute_expected int64_machine (Table (Fin 4294967296, Fin 0) (Fin 0, Fin 4294967296)) =
     Table (Fin 0, Fin 0) (Fin 0, Fin 0)"
  by (simp add: compute_expected_def machine_simps int64_simps)

text \<open>
  In the arithmetic of floats the quotients are rounded: on a table of four equal cells
  \<open>12.9\<close> the expected cell is the float just below \<open>12.9\<close>, and the expected cells of
  \<^verbatim>\<open>[[0, 1], [2, 0]]\<close> add up to the float just below \<open>3\<close>.
\<close>

lemma expected_f64_tie_table:
  "cell (compute_expected float64_machine
     (Table (Fin (129 / 10), Fin (129 / 10)) (Fin (129 / 10), Fin (129 / 10)))) I0 I0 =
   Fin (1815513599783731 / 140737488355328)"
  by (simp add: compute_expected_def machine_simps float64_simps)

lemma expected_f64_rounds:
  "compute_expected float64_machine (Table (Fin 0, Fin 1) (Fin 2, Fin 0)) =
     Table (Fin (6004799503160661 / 9007199254740992), Fin (6004799503160661 / 18014398509481984))
           (Fin (6004799503160661 / 4503599627370496), Fin (6004799503160661 / 9007199254740992))"
  by (simp add: compute_expected_def machine_simps float64_simps)

lemma expected_sum_f64_rounds:
  "arr_sum float64_machine
     (flat (compute_expected float64_machine (Table (Fin 0, Fin 1) (Fin 2, Fin 0)))) =
   Fin (6755399441055743 / 2251799813685248)"
  unfolding expected_f64_rounds
  by (simp add: machine_simps float64_simps)

text \<open>
  Claim C5. For every machine and every table, cell \<open>(i, j)\<close> of \<open>compute_expected\<close> is
  the sum of row \<open>i\<close> times the sum of column \<open>j\<close>, divided by the grand total, each
  operation being the machine's. When the grand total is zero the function still
  returns a table (it has no error result), and each of its cells is NaN or an
  infinity.
\<close>

theorem compute_expected_cells:
  "cell (compute_expected M T) i j =
     true_divide M (m_mul M (arr_sum M (row_slice T i)) (arr_sum M (col_slice T j)))
       (arr_sum M (flat T))
   \<and> (arr_sum M (flat T) = Fin 0 \<longrightarrow> cell (compute_expected M T) i j \<in> {NaN, PInf, NInf})"
proof (intro conjI impI)
  show "cell (compute_expected M T) i j =
     true_divide M (m_mul M (arr_sum M (row_slice T i)) (arr_sum M (col_slice T j)))
       (arr_sum M (flat T))"
    by (rule compute_expected_cell)
next
  assume "arr_sum M (flat T) = Fin 0"
  then show "cell (compute_expected M T) i j \<in> {NaN, PInf, NInf}"
    using true_divide_zero by (simp only: compute_expected_cell)
qed

theorem compute_expected_cells_witness:
  "cell (compute_expected int64_machine (Table (Fin 0, Fin 0) (Fin 0, Fin 0))) I0 I0 = NaN
   \<and> cell (compute_expected int64_machine (Table (Fin 1, Fin 1) (Fin 1, Fin (- 3)))) I0 I0 = PInf
   \<and> cell (compute_expected int64_machine (Table (Fin 50, Fin 10) (Fin 10, Fin 30))) I0 I1 = Fin 24
   \<and> cell (compute_expected int64_machine
         (Table (Fin 4294967296, Fin 0) (Fin 0, Fin 4294967296))) I0 I0 = Fin 0
   \<and> cell (compute_expected float64_machine
         (Table (Fin (129 / 10), Fin (129 / 10)) (Fin (129 / 10), Fin (129 / 10)))) I0 I0 =
       Fin (1815513599783731 / 140737488355328)"
proof (intro conjI)
  have z: "arr_sum int64_machine (flat (Table (Fin 0, Fin 0) (Fin 0, Fin 0))) = Fin 0"
    by (simp add: machine_simps int64_simps)
  have "cell (compute_expected int64_machine (Table (Fin 0, Fin 0) (Fin 0, Fin 0))) I0 I0
          \<in> {NaN, PInf, NInf}"
    by (rule compute_expected_cells [THEN conjunct2, THEN mp, OF z])
  moreover have "cell (compute_expected int64_machine (Table (Fin 0, Fin 0) (Fin 0, Fin 0))) I0 I0
          = true_divide int64_machine (Fin 0) (Fin 0)"
    by (simp add: compute_expected_cells [THEN conjunct1] machine_simps int64_simps)
  ultimately show
    "cell (compute_expected int64_machine (Table (Fin 0, Fin 0) (Fin 0, Fin 0))) I0 I0 = NaN"
    by (simp add: machine_simps inf_of_sign_def)
  show "cell (compute_expected int64_machine (Table (Fin 1, Fin 1) (Fin 1, Fin (- 3)))) I0 I0
          = PInf"
    by (simp add: compute_expected_cells [THEN conjunct1] machine_simps int64_simps
        inf_of_sign_def)
  show "cell (compute_expected int64_machine (Table (Fin 50, Fin 10) (Fin 10, Fin 30))) I0 I1
          = Fin 24"
    by (simp add: expected_int64_small)
  show "cell (compute_expected int64_machine
         (Table (Fin 4294967296, Fin 0) (Fin 0, Fin 4294967296))) I0 I0 = Fin 0"
    by (simp add: expected_int64_wraps)
  show "cell (compute_expected float64_machine
         (Table (Fin (129 / 10), Fin (129 / 10)) (Fin (129 / 10), Fin (129 / 10)))) I0 I0 =
       Fin (1815513599783731 / 140737488355328)"
    by (rule expected_f64_tie_table)
qed

lemma exact_sum_four:
  "arr_sum exact_machine [Fin a, Fin b, Fin c, Fin d] = Fin (a + b + c + d)"
  by (simp add: machine_simps exact_machine_def)

lemma compute_expected_exact:
  assumes "a + b + c + d \<noteq> 0"
  shows "compute_expected exact_machine (Table (Fin a, Fin b) (Fin c, Fin d)) =
         Table (Fin ((a + b) * (a + c) / (a + b + c + d)),
                Fin ((a + b) * (b + d) / (a + b + c + d)))
               (Fin ((c + d) * (a + c) / (a + b + c + d)),
                Fin ((c + d) * (b + d) / (a + b + c + d)))"
  using assms by (simp add: compute_expected_def machine_simps exact_machine_def)

text \<open>
  Claim C6, as amended. In arithmetic without rounding or overflow, for a table whose
  two row sums and two column sums are all positive, the four cells of the expected
  table add up to the grand total of the observed table, exactly. In the arithmetic of
  the code the equality is not guaranteed: floats round (\<open>expected_sum_f64_rounds\<close>), and
  on integers not even a tolerance holds, as the counterexample below shows.
\<close>

theorem compute_expected_preserves_total:
  assumes "0 < a + b" and "0 < c + d" and "0 < a + c" and "0 < b + d"
  shows "arr_sum exact_machine
           (flat (compute_expected exact_machine (Table (Fin a, Fin b) (Fin c, Fin d)))) =
         arr_sum exact_machine (flat (Table (Fin a, Fin b) (Fin c, Fin d)))"
proof -
  let ?n = "a + b + c + d"
  from assms have n: "?n \<noteq> 0" by linarith
  have "(a + b) * (a + c) / ?n + (a + b) * (b + d) / ?n
          + (c + d) * (a + c) / ?n + (c + d) * (b + d) / ?n = ?n * ?n / ?n"
    by (simp add: algebra_simps add_divide_distrib [symmetric])
  also have "\<dots> = ?n" using n by simp
  finally have "arr_sum exact_machine
      [Fin ((a + b) * (a + c) / ?n), Fin ((a + b) * (b + d) / ?n),
       Fin ((c + d) * (a + c) / ?n), Fin ((c + d) * (b + d) / ?n)] = Fin ?n"
    by (simp only: exact_sum_four)
  then show ?thesis
    by (simp add: compute_expected_exact [OF n] exact_sum_four)
qed

theorem compute_expected_preserves_total_witness:
  "arr_sum exact_machine
     (flat (compute_expected exact_machine (Table (Fin 50, Fin 10) (Fin 10, Fin 30)))) = Fin 100"
  using compute_expected_preserves_total [of 50 10 10 30] by (simp add: exact_sum_four)

text \<open>
  The claim as first stated (equal within floating-point tolerance in the code's
  arithmetic) fails on a table of \<^verbatim>\<open>int64\<close> counts with positive margins: the products
  of the margins, \<open>2^32 * 2^32\<close>, wrap to \<open>0\<close>, every expected cell is \<open>0.0\<close>, and their sum
  is \<open>0\<close> where the observed cells sum to \<open>2^33\<close>.
\<close>

theorem compute_expected_preserves_total_counterexample:
  "(0 :: real) < 4294967296 + 0
   \<and> compute_expected int64_machine (Table (Fin 4294967296, Fin 0) (Fin 0, Fin 4294967296)) =
       Table (Fin 0, Fin 0) (Fin 0, Fin 0)
   \<and> arr_sum float64_machine
       (flat (compute_expected int64_machine
          (Table (Fin 4294967296, Fin 0) (Fin 0, Fin 4294967296)))) = Fin 0
   \<and> arr_sum int64_machine (flat (Table (Fin 4294967296, Fin 0) (Fin 0, Fin 4294967296))) =
       Fin 8589934592"
proof (intro conjI)
  show "(0 :: real) < 4294967296 + 0" by simp
  show "compute_expected int64_machine (Table (Fin 4294967296, Fin 0) (Fin 0, Fin 4294967296)) =
       Table (Fin 0, Fin 0) (Fin 0, Fin 0)"
    by (rule expected_int64_wraps)
  show "arr_sum float64_machine
       (flat (compute_expected int64_machine
          (Table (Fin 4294967296, Fin 0) (Fin 0, Fin 4294967296)))) = Fin 0"
    unfolding expected_int64_wraps
    by (simp add: machine_simps float64_machine_def f64_add_def round_f64_int)
  show "arr_sum int64_machine (flat (Table (Fin 4294967296, Fin 0) (Fin 0, Fin 4294967296))) =
       Fin 8589934592"
    by (simp add: machine_simps int64_simps)
qed

subsection \<open>The log-likelihood score\<close>

lemma np_gt_irrefl: "\<not> np_gt x x"
  by (cases x) simp_all

lemma log_likelihood_unrolled:
  "compute_log_likelihood_from_observed M T =
     (f_mul M (Fin 2)
        (foldl (f_add M) (Fin 0)
           (map (likelihood_term M T (compute_expected M T))
              [(I0, I0), (I0, I1), (I1, I0), (I1, I1)])),
      if np_gt (as_float M (cell T I0 I0)) (cell (compute_expected M T) I0 I0)
      then ''more'' else ''less'')"
  by (simp add: compute_log_likelihood_from_observed_def loop_indices_def Let_def)

lemma direction_int64_less:
  "snd (compute_log_likelihood_from_observed int64_machine (Table (Fin 1, Fin 3) (Fin 3, Fin 1)))
     = ''less''"
  by (simp add: log_likelihood_unrolled compute_expected_def machine_simps int64_simps)

lemma direction_int64_more:
  "snd (compute_log_likelihood_from_observed int64_machine (Table (Fin 3, Fin 1) (Fin 1, Fin 3)))
     = ''more''"
  by (simp add: log_likelihood_unrolled compute_expected_def machine_simps int64_simps)

text \<open>
  On the table of four equal cells \<open>12.9\<close> the exact expected value equals the observed
  one, but the floats computed do not: the direction is \<open>more\<close>.
\<close>

lemma direction_f64_tie_table:
  "snd (compute_log_likelihood_from_observed float64_machine
     (Table (Fin (129 / 10), Fin (129 / 10)) (Fin (129 / 10), Fin (129 / 10)))) = ''more''"
  using expected_f64_tie_table
  by (simp add: log_likelihood_unrolled as_float_def float64_machine_def rnd_1)

text \<open>
  Claim C2. For every machine and every table, \<open>compute_log_likelihood_from_observed\<close>
  returns twice the sum, accumulated from zero over the cells \<open>(0,0)\<close>, \<open>(0,1)\<close>, \<open>(1,0)\<close>,
  \<open>(1,1)\<close>, of \<open>observed * log ((observed + 1e-20) / (expected + 1e-20))\<close>, with the
  expected table computed from the observed one, each operation being the machine's;
  and the direction \<open>more\<close> when cell \<open>(0,0)\<close> of the observed table is greater than that
  of the expected table, \<open>less\<close> otherwise. In particular the direction is \<open>less\<close> when
  the two cells, as computed, are equal.
\<close>

theorem log_likelihood_from_observed:
  "compute_log_likelihood_from_observed M T =
     (f_mul M (Fin 2)
        (foldl (f_add M) (Fin 0)
           (map (likelihood_term M T (compute_expected M T))
              [(I0, I0), (I0, I1), (I1, I0), (I1, I1)])),
      if np_gt (as_float M (cell T I0 I0)) (cell (compute_expected M T) I0 I0)
      then ''more'' else ''less'')
   \<and> likelihood_term M T E (i, j) =
       f_mul M (cell T i j)
         (f_log M (true_divide M (f_add M (cell T i j) (to_float M (1 / 10 ^ 20)))
                                 (f_add M (cell E i j) (to_float M (1 / 10 ^ 20)))))
   \<and> (as_float M (cell T I0 I0) = cell (compute_expected M T) I0 I0 \<longrightarrow>
        snd (compute_log_likelihood_from_observed M T) = ''less'')"
proof (intro conjI impI)
  show "compute_log_likelihood_from_observed M T =
     (f_mul M (Fin 2)
        (foldl (f_add M) (Fin 0)
           (map (likelihood_term M T (compute_expected M T))
              [(I0, I0), (I0, I1), (I1, I0), (I1, I1)])),
      if np_gt (as_float M (cell T I0 I0)) (cell (compute_expected M T) I0 I0)
      then ''more'' else ''less'')"
    by (rule log_likelihood_unrolled)
  show "likelihood_term M T E (i, j) =
       f_mul M (cell T i j)
         (f_log M (true_divide M (f_add M (cell T i j) (to_float M (1 / 10 ^ 20)))
                                 (f_add M (cell E i j) (to_float M (1 / 10 ^ 20)))))"
    by (simp add: likelihood_term_def SMALL_def)
  assume "as_float M (cell T I0 I0) = cell (compute_expected M T) I0 I0"
  then show "snd (compute_log_likelihood_from_observed M T) = ''less''"
    by (simp add: log_likelihood_unrolled np_gt_irrefl)
qed

theorem log_likelihood_from_observed_witness:
  "as_float int64_machine (cell (Table (Fin 1, Fin 1) (Fin 1, Fin 1)) I0 I0) = Fin 1
   \<and> cell (compute_expected int64_machine (Table (Fin 1, Fin 1) (Fin 1, Fin 1))) I0 I0 = Fin 1
   \<and> snd (compute_log_likelihood_from_observed int64_machine
            (Table (Fin 1, Fin 1) (Fin 1, Fin 1))) = ''less''
   \<and> snd (compute_log_likelihood_from_observed int64_machine
            (Table (Fin 3, Fin 1) (Fin 1, Fin 3))) = ''more''
   \<and> snd (compute_log_likelihood_from_observed float64_machine
            (Table (Fin (129 / 10), Fin (129 / 10)) (Fin (129 / 10), Fin (129 / 10)))) = ''more''"
proof -
  have a: "as_float int64_machine (cell (Table (Fin 1, Fin 1) (Fin 1, Fin 1)) I0 I0) = Fin 1"
    by (simp add: machine_simps int64_simps)
  have b: "cell (compute_expected int64_machine (Table (Fin 1, Fin 1) (Fin 1, Fin 1))) I0 I0
             = Fin 1"
    by (simp add: compute_expected_def machine_simps int64_simps)
  have "snd (compute_log_likelihood_from_observed int64_machine
            (Table (Fin 1, Fin 1) (Fin 1, Fin 1))) = ''less''"
    by (rule log_likelihood_from_observed [THEN conjunct2, THEN conjunct2, THEN mp])
       (simp only: a b)
  with a b direction_int64_more direction_f64_tie_table show ?thesis by simp
qed

subsection \<open>Scores and observed tables of keyword rows\<close>

lemma get_observed_from_row_present:
  assumes "row source = Some t" and "row ''Total'' = Some tot" and "totals source = Some tr"
  shows "get_observed_from_row row source totals =
           Inr (Table (t, np_sub tot t)
                      (np_sub (target_freq tr) t, np_sub (ref_freq tr) (np_sub tot t)))"
  using assms by (simp add: get_observed_from_row_def get_complement_from_row_def getitem_def)

text \<open>
  Claim C8. For every machine, \<open>compute_log_likelihood_from_row\<close> returns the score of
  the observed table built by \<open>get_observed_from_row\<close>, that is the first component of
  \<open>compute_log_likelihood_from_observed\<close>, whatever the direction is; a
  \<^verbatim>\<open>KeyError\<close> of the table's construction is passed on. When the row and the totals
  have the labels read, the table is the one of the four differences.
\<close>

theorem log_likelihood_from_row_unsigned:
  "compute_log_likelihood_from_row M row source totals =
     (case get_observed_from_row row source totals of
        Inl e \<Rightarrow> Inl e
      | Inr observed \<Rightarrow> Inr (fst (compute_log_likelihood_from_observed M observed)))
   \<and> (row source = Some t \<and> row ''Total'' = Some tot \<and> totals source = Some tr \<longrightarrow>
        compute_log_likelihood_from_row M row source totals =
          Inr (fst (compute_log_likelihood_from_observed M
                 (Table (t, np_sub tot t)
                        (np_sub (target_freq tr) t, np_sub (ref_freq tr) (np_sub tot t))))))"
proof (intro conjI impI)
  show c: "compute_log_likelihood_from_row M row source totals =
     (case get_observed_from_row row source totals of
        Inl e \<Rightarrow> Inl e
      | Inr observed \<Rightarrow> Inr (fst (compute_log_likelihood_from_observed M observed)))"
    by (cases "get_observed_from_row row source totals")
      (simp_all add: compute_log_likelihood_from_row_def split: prod.splits)
  assume "row source = Some t \<and> row ''Total'' = Some tot \<and> totals source = Some tr"
  then show "compute_log_likelihood_from_row M row source totals =
          Inr (fst (compute_log_likelihood_from_observed M
                 (Table (t, np_sub tot t)
                        (np_sub (target_freq tr) t, np_sub (ref_freq tr) (np_sub tot t)))))"
    by (simp add: c get_observed_from_row_present)
qed

theorem log_likelihood_from_row_unsigned_witness:
  "compute_log_likelihood_from_row int64_machine [''x'' \<mapsto> Fin 1, ''Total'' \<mapsto> Fin 4] ''x''
       [''x'' \<mapsto> \<lparr>target_freq = Fin 4, ref_freq = Fin 4\<rparr>] =
     Inr (fst (compute_log_likelihood_from_observed int64_machine
                 (Table (Fin 1, Fin 3) (Fin 3, Fin 1))))
   \<and> snd (compute_log_likelihood_from_observed int64_machine
            (Table (Fin 1, Fin 3) (Fin 3, Fin 1))) = ''less''"
proof -
  have "compute_log_likelihood_from_row int64_machine [''x'' \<mapsto> Fin 1, ''Total'' \<mapsto> Fin 4] ''x''
       [''x'' \<mapsto> \<lparr>target_freq = Fin 4, ref_freq = Fin 4\<rparr>] =
     Inr (fst (compute_log_likelihood_from_observed int64_machine
         (Table (Fin 1, np_sub (Fin 4) (Fin 1))
            (np_sub (target_freq \<lparr>target_freq = Fin 4, ref_freq = Fin 4\<rparr>) (Fin 1),
             np_sub (ref_freq \<lparr>target_freq = Fin 4, ref_freq = Fin 4\<rparr>)
               (np_sub (Fin 4) (Fin 1))))))"
    by (rule log_likelihood_from_row_unsigned [THEN conjunct2, THEN mp]) simp
  then show ?thesis
    by (simp add: np_sub_def direction_int64_less)
qed

lemma foldl_np_add_finite:
  "(\<And>x. x \<in> set xs \<Longrightarrow> \<exists>r. x = Fin r) \<Longrightarrow> \<exists>s. foldl np_add (Fin a) xs = Fin s"
proof (induction xs arbitrary: a)
  case Nil
  then show ?case by simp
next
  case (Cons x xs)
  from Cons.prems obtain r where x: "x = Fin r" by auto
  have "\<exists>s. foldl np_add (Fin (a + r)) xs = Fin s"
    by (rule Cons.IH) (simp add: Cons.prems)
  then show ?case by (simp add: x)
qed

lemma df_sum_lookup:
  "map_of (df_sum df) c =
     (if c \<in> set (df_columns df)
      then Some (np_sum (filter (\<lambda>v. v \<noteq> NaN) (map (\<lambda>k. df_value df k c) (df_index df))))
      else None)"
  by (simp add: df_sum_def map_of_map_restrict restrict_map_def)

lemma df_sum_finite:
  assumes "\<forall>k c. \<exists>r. df_value df k c = Fin r" and "c \<in> set (df_columns df)"
  shows "\<exists>s. map_of (df_sum df) c = Some (Fin s)"
proof -
  have "\<exists>s. foldl np_add (Fin 0) (filter (\<lambda>v. v \<noteq> NaN) (map (\<lambda>k. df_value df k c) (df_index df))) = Fin s"
    by (rule foldl_np_add_finite) (use assms(1) in auto)
  with assms(2) show ?thesis
    by (simp add: df_sum_lookup np_sum_def)
qed

lemma map_of_map_value:
  "map_of (map (\<lambda>(c, t). (c, f t)) xs) c = map_option f (map_of xs c)"
  by (induction xs) auto

lemma compute_category_totals_lookup:
  assumes "compute_category_totals df = Inr totals"
  shows "\<exists>tot. map_of (df_sum df) ''Total'' = Some tot \<and>
           totals = (\<lambda>c. map_option (\<lambda>t. \<lparr>target_freq = t, ref_freq = np_sub tot t\<rparr>)
                            (map_of (df_sum df) c))"
  using assms
  by (auto simp: compute_category_totals_def getitem_def Let_def map_of_map_value
      split: option.splits)

lemma demo_totals:
  "compute_category_totals demo_freq =
     Inr [''x'' \<mapsto> \<lparr>target_freq = Fin 2, ref_freq = Fin 4\<rparr>,
          ''y'' \<mapsto> \<lparr>target_freq = Fin 4, ref_freq = Fin 2\<rparr>,
          ''Total'' \<mapsto> \<lparr>target_freq = Fin 6, ref_freq = Fin 0\<rparr>]"
  by (simp add: compute_category_totals_def demo_freq_def df_sum_def getitem_def np_sum_def
      np_sub_def fun_eq_iff)

text \<open>
  Claim C10. With the totals computed by \<open>compute_category_totals\<close> from a frequency
  table of finite counts, a category among its columns, and a row that has finite
  entries for the category and for \<^verbatim>\<open>Total\<close>, \<open>get_observed_from_row\<close> returns a table
  whose four cells add up to \<open>target_freq\<close> of the \<^verbatim>\<open>Total\<close> line of the totals, the
  grand total of the frequency table. Neither the row nor the category changes the sum;
  that the row's \<^verbatim>\<open>Total\<close> is the sum of its other entries is not needed.
\<close>

theorem observed_cells_sum_to_grand_total:
  assumes totals: "compute_category_totals keyword_cat_freq = Inr totals"
    and cat: "category \<in> set (df_columns keyword_cat_freq)"
    and fin: "\<forall>k c. \<exists>r. df_value keyword_cat_freq k c = Fin r"
    and row: "row category = Some (Fin x)" "row ''Total'' = Some (Fin t)"
  shows "\<exists>observed grand. get_observed_from_row row category totals = Inr observed
           \<and> map_option target_freq (totals ''Total'') = Some grand
           \<and> table_sum observed = grand"
proof -
  from compute_category_totals_lookup [OF totals] obtain tot where
    tot: "map_of (df_sum keyword_cat_freq) ''Total'' = Some tot" and
    tots: "totals = (\<lambda>c. map_option (\<lambda>t. \<lparr>target_freq = t, ref_freq = np_sub tot t\<rparr>)
                            (map_of (df_sum keyword_cat_freq) c))"
    by blast
  from tot have "''Total'' \<in> set (df_columns keyword_cat_freq)"
    by (simp add: df_sum_lookup split: if_splits)
  from df_sum_finite [OF fin this] tot obtain g where g: "tot = Fin g" by auto
  from df_sum_finite [OF fin cat] obtain s where
    s: "map_of (df_sum keyword_cat_freq) category = Some (Fin s)" by blast
  have tc: "totals category = Some \<lparr>target_freq = Fin s, ref_freq = np_sub (Fin g) (Fin s)\<rparr>"
    by (simp add: tots s g)
  have obs: "get_observed_from_row row category totals =
          Inr (Table (Fin x, np_sub (Fin t) (Fin x))
                 (np_sub (Fin s) (Fin x), np_sub (np_sub (Fin g) (Fin s)) (np_sub (Fin t) (Fin x))))"
    using get_observed_from_row_present [of row category "Fin x" "Fin t" totals, OF row tc]
    by simp
  have "table_sum (Table (Fin x, np_sub (Fin t) (Fin x))
                 (np_sub (Fin s) (Fin x), np_sub (np_sub (Fin g) (Fin s)) (np_sub (Fin t) (Fin x)))) = Fin g"
    by (simp add: np_sub_def np_sum_def)
  moreover have "map_option target_freq (totals ''Total'') = Some (Fin g)"
    by (simp add: tots tot g)
  ultimately show ?thesis using obs by simp
qed

theorem observed_cells_sum_to_grand_total_witness:
  "\<exists>observed. get_observed_from_row [''x'' \<mapsto> Fin 1, ''y'' \<mapsto> Fin 2, ''Total'' \<mapsto> Fin 3] ''x''
        [''x'' \<mapsto> \<lparr>target_freq = Fin 2, ref_freq = Fin 4\<rparr>,
          ''y'' \<mapsto> \<lparr>target_freq = Fin 4, ref_freq = Fin 2\<rparr>,
          ''Total'' \<mapsto> \<lparr>target_freq = Fin 6, ref_freq = Fin 0\<rparr>] = Inr observed
      \<and> table_sum observed = Fin 6"
proof -
  have fin: "\<forall>k c. \<exists>r. df_value demo_freq k c = Fin r"
    by (simp add: demo_freq_def)
  have cat: "''x'' \<in> set (df_columns demo_freq)"
    by (simp add: demo_freq_def)
  show ?thesis
    using observed_cells_sum_to_grand_total [OF demo_totals cat fin,
        of "[''x'' \<mapsto> Fin 1, ''y'' \<mapsto> Fin 2, ''Total'' \<mapsto> Fin 3]" 1 3]
    by simp
qed

subsection \<open>Resampling\<close>

lemma draw_in_range:
  assumes "low < high"
  shows "length (fst (draw low high n g)) = n \<and>
         (\<forall>i \<in> set (fst (draw low high n g)). low \<le> i \<and> i < high)"
proof (induction n arbitrary: g)
  case 0
  show ?case by simp
next
  case (Suc n)
  from assms have m: "0 \<le> int (g 0) mod (high - low) \<and> int (g 0) mod (high - low) < high - low"
    by simp
  from Suc [of "\<lambda>k. g (Suc k)"] m show ?case
    by (auto simp: rng_next_def split: prod.splits)
qed

text \<open>Every sequence of indices of the range is drawn from some stream.\<close>

lemma draw_covers:
  assumes "\<forall>i \<in> set idx. low \<le> i \<and> i < high"
  shows "\<exists>g. fst (draw low high (length idx) g) = idx"
  using assms
proof (induction idx)
  case Nil
  show ?case by simp
next
  case (Cons x xs)
  then obtain g1 where g1: "fst (draw low high (length xs) g1) = xs" by auto
  let ?g = "\<lambda>k. case k of 0 \<Rightarrow> nat (x - low) | Suc j \<Rightarrow> g1 j"
  from Cons.prems have "low + int (nat (x - low)) mod (high - low) = x" by simp
  with g1 have "fst (draw low high (length (x # xs)) ?g) = x # xs"
    by (cases "draw low high (length xs) g1") (simp add: rng_next_def)
  then show ?case by blast
qed

lemma np_take_in_range:
  "(\<forall>i \<in> set js. 0 \<le> i \<and> i < int (length xs)) \<Longrightarrow>
   np_take xs js = Inr (map (\<lambda>i. xs ! nat i) js)"
  by (induction js) (simp_all add: Let_def)

lemma randint_ok:
  assumes "low < high" and "0 \<le> n"
  shows "\<exists>idx g1. randint low high n g = Inr (idx, g1) \<and> length idx = nat n \<and>
           (\<forall>i \<in> set idx. low \<le> i \<and> i < high)"
proof (cases "n = 0")
  case True
  then show ?thesis by (simp add: randint_def)
next
  case False
  with assms have "randint low high n g = Inr (draw low high (nat n) g)"
    by (simp add: randint_def)
  with draw_in_range [OF assms(1), of "nat n" g] show ?thesis
    by (cases "draw low high (nat n) g") auto
qed

lemma resample_zero: "resample sample 0 g = Inr ([], g)"
  by (simp add: resample_def randint_def)

lemma resample_empty_fails: "0 < n \<Longrightarrow> resample [] n g = Inl ValueError"
  by (simp add: resample_def randint_def)

lemma resample_nonempty:
  assumes "sample \<noteq> []" and "0 \<le> n"
  shows "\<exists>idx g1. randint 0 (int (length sample)) n g = Inr (idx, g1) \<and>
           length idx = nat n \<and>
           (\<forall>i \<in> set idx. 0 \<le> i \<and> i < int (length sample)) \<and>
           resample sample n g = Inr (map (\<lambda>i. sample ! nat i) idx, g1)"
proof -
  from assms(1) have "0 < int (length sample)" by simp
  from randint_ok [OF this assms(2), of g] obtain idx g1 where
    r: "randint 0 (int (length sample)) n g = Inr (idx, g1)" and
    l: "length idx = nat n" and
    b: "\<forall>i \<in> set idx. 0 \<le> i \<and> i < int (length sample)"
    by blast
  from r np_take_in_range [OF b]
  have "resample sample n g = Inr (map (\<lambda>i. sample ! nat i) idx, g1)"
    by (simp add: resample_def)
  with r l b show ?thesis by blast
qed

lemma resample_nonempty_elems:
  assumes "sample \<noteq> []" and "0 \<le> n"
  shows "\<exists>r g1. resample sample n g = Inr (r, g1) \<and> length r = nat n \<and> set r \<subseteq> set sample"
proof -
  from resample_nonempty [OF assms, of g] obtain idx g1 where
    l: "length idx = nat n" and
    b: "\<forall>i \<in> set idx. 0 \<le> i \<and> i < int (length sample)" and
    r: "resample sample n g = Inr (map (\<lambda>i. sample ! nat i) idx, g1)"
    by blast
  from b have "set (map (\<lambda>i. sample ! nat i) idx) \<subseteq> set sample"
    by (auto simp: nat_less_iff)
  with l r show ?thesis by auto
qed

text \<open>
  Claim C7. For a non-empty sample and a length \<open>n \<ge> 0\<close>, whatever the random source,
  \<open>resample\<close> returns (it does not raise); the indices drawn all lie in
  \<open>[0, len(sample))\<close>, the result is the sample read at these indices, it has exactly
  \<open>n\<close> elements, and each of them is an element of the sample.
\<close>

theorem resample_length_and_elements:
  assumes "sample \<noteq> []" and "0 \<le> n"
  shows "\<exists>idx r g1. randint 0 (int (length sample)) n g = Inr (idx, g1) \<and>
           (\<forall>i \<in> set idx. 0 \<le> i \<and> i < int (length sample)) \<and>
           resample sample n g = Inr (r, g1) \<and>
           r = map (\<lambda>i. sample ! nat i) idx \<and>
           length r = nat n \<and> set r \<subseteq> set sample"
proof -
  from resample_nonempty [OF assms, of g] obtain idx g1 where
    r0: "randint 0 (int (length sample)) n g = Inr (idx, g1)" and
    l: "length idx = nat n" and
    b: "\<forall>i \<in> set idx. 0 \<le> i \<and> i < int (length sample)" and
    r: "resample sample n g = Inr (map (\<lambda>i. sample ! nat i) idx, g1)"
    by blast
  from b have "set (map (\<lambda>i. sample ! nat i) idx) \<subseteq> set sample"
    by (auto simp: nat_less_iff)
  with r0 l b r show ?thesis by auto
qed

theorem resample_length_and_elements_witness:
  "\<exists>r g1. resample [10, 20, 30 :: int] 2 (\<lambda>k. k + 1) = Inr (r, g1) \<and>
           length r = 2 \<and> set r \<subseteq> {10, 20, 30}"
  using resample_length_and_elements [of "[10, 20, 30 :: int]" 2 "\<lambda>k. k + 1"] by auto

text \<open>
  Claim C4. \<open>resample\<close> with length \<open>0\<close> returns the empty sequence for every sample,
  the empty one included, and leaves the random source as it was. For a length
  \<open>n \<ge> 0\<close>, \<open>resample\<close> raises exactly when the sample is empty and \<open>n > 0\<close>, and
  what it raises then is \<^verbatim>\<open>ValueError\<close>, Python's invalid-argument exception.
\<close>

theorem resample_zero_and_failure:
  "resample sample 0 g = Inr ([], g)
   \<and> (0 \<le> n \<longrightarrow>
        ((\<exists>e. resample sample n g = Inl e) \<longleftrightarrow> sample = [] \<and> 0 < n)
      \<and> (resample sample n g = Inl ValueError \<longleftrightarrow> sample = [] \<and> 0 < n))"
proof (intro conjI impI)
  show "resample sample 0 g = Inr ([], g)" by (rule resample_zero)
next
  assume n: "0 \<le> n"
  show "(\<exists>e. resample sample n g = Inl e) \<longleftrightarrow> sample = [] \<and> 0 < n"
  proof (cases "sample = []")
    case True
    with n show ?thesis
      by (cases "n = 0") (auto simp: resample_zero resample_empty_fails)
  next
    case False
    with resample_nonempty_elems [OF False n, of g] show ?thesis by auto
  qed
  show "resample sample n g = Inl ValueError \<longleftrightarrow> sample = [] \<and> 0 < n"
  proof (cases "sample = []")
    case True
    with n show ?thesis
      by (cases "n = 0") (auto simp: resample_zero resample_empty_fails)
  next
    case False
    with resample_nonempty_elems [OF False n, of g] show ?thesis by auto
  qed
qed

theorem resample_zero_and_failure_witness:
  "resample ([] :: int list) 0 (\<lambda>k. k) = Inr ([], \<lambda>k. k)
   \<and> resample ([] :: int list) 3 (\<lambda>k. k) = Inl ValueError
   \<and> resample [10, 20 :: int] 3 (\<lambda>k. k) \<noteq> Inl ValueError"
  using resample_zero_and_failure [of "[] :: int list" "\<lambda>k. k" 3] resample_zero_and_failure [of "[10, 20 :: int]" "\<lambda>k. k" 3]
  by simp


subsection \<open>The two-sample bootstrap test\<close>

lemma resample_full:
  "\<exists>r g1. resample sample (int (length sample)) g = Inr (r, g1) \<and>
           length r = length sample \<and> set r \<subseteq> set sample"
proof (cases "sample = []")
  case True
  then show ?thesis by (simp add: resample_zero)
next
  case False
  from resample_nonempty_elems [OF False, of "int (length sample)" g] show ?thesis by simp
qed

lemma trial_outcome:
  "\<exists>r1 g1 r2 g2.
      resample sample1 (int (length sample1)) g = Inr (r1, g1) \<and>
      resample sample2 (int (length sample2)) g1 = Inr (r2, g2) \<and>
      trial stat_func sample1 sample2 (stats, signs, g) =
        Inr (stats @ [spec_ratio (stat_func r1) (stat_func r2)],
             signs @ [spec_sign (stat_func r1) (stat_func r2)], g2)"
proof -
  from resample_full [of sample1 g] obtain r1 g1 where
    r1: "resample sample1 (int (length sample1)) g = Inr (r1, g1)" by blast
  from resample_full [of sample2 g1] obtain r2 g2 where
    r2: "resample sample2 (int (length sample2)) g1 = Inr (r2, g2)" by blast
  have "trial stat_func sample1 sample2 (stats, signs, g) =
        Inr (stats @ [spec_ratio (stat_func r1) (stat_func r2)],
             signs @ [spec_sign (stat_func r1) (stat_func r2)], g2)"
    by (simp add: trial_def r1 r2 spec_ratio_def spec_sign_def Let_def)
  with r1 r2 show ?thesis by blast
qed

lemma trials_outcomes:
  "\<exists>outs g1.
      trials k stat_func sample1 sample2 (stats, signs, g) =
        Inr (stats @ map fst outs, signs @ map snd outs, g1) \<and>
      length outs = k \<and>
      (\<forall>out \<in> set outs. \<exists>r1 r2. resampled_pair sample1 sample2 r1 r2 \<and>
          out = (spec_ratio (stat_func r1) (stat_func r2),
                 spec_sign (stat_func r1) (stat_func r2)))"
proof (induction k arbitrary: stats signs g)
  case 0
  show ?case by simp
next
  case (Suc k)
  from trial_outcome [of sample1 g sample2 stat_func stats signs] obtain r1 g1 r2 g2 where
    r1: "resample sample1 (int (length sample1)) g = Inr (r1, g1)" and
    r2: "resample sample2 (int (length sample2)) g1 = Inr (r2, g2)" and
    t: "trial stat_func sample1 sample2 (stats, signs, g) =
        Inr (stats @ [spec_ratio (stat_func r1) (stat_func r2)],
             signs @ [spec_sign (stat_func r1) (stat_func r2)], g2)"
    by blast
  let ?o = "(spec_ratio (stat_func r1) (stat_func r2), spec_sign (stat_func r1) (stat_func r2))"
  from Suc [of "stats @ [fst ?o]" "signs @ [snd ?o]" g2] obtain outs g3 where
    ih: "trials k stat_func sample1 sample2 (stats @ [fst ?o], signs @ [snd ?o], g2) =
           Inr ((stats @ [fst ?o]) @ map fst outs, (signs @ [snd ?o]) @ map snd outs, g3)" and
    len: "length outs = k" and
    each: "\<forall>out \<in> set outs. \<exists>r1 r2. resampled_pair sample1 sample2 r1 r2 \<and>
          out = (spec_ratio (stat_func r1) (stat_func r2),
                 spec_sign (stat_func r1) (stat_func r2))"
    by blast
  have "trials (Suc k) stat_func sample1 sample2 (stats, signs, g) =
          Inr (stats @ map fst (?o # outs), signs @ map snd (?o # outs), g3)"
    using t ih by simp
  moreover have "length (?o # outs) = Suc k" using len by simp
  moreover have "\<forall>out \<in> set (?o # outs). \<exists>r1 r2. resampled_pair sample1 sample2 r1 r2 \<and>
          out = (spec_ratio (stat_func r1) (stat_func r2),
                 spec_sign (stat_func r1) (stat_func r2))"
  proof
    fix out
    assume "out \<in> set (?o # outs)"
    then consider "out = ?o" | "out \<in> set outs" by auto
    then show "\<exists>r1 r2. resampled_pair sample1 sample2 r1 r2 \<and>
          out = (spec_ratio (stat_func r1) (stat_func r2),
                 spec_sign (stat_func r1) (stat_func r2))"
    proof cases
      case 1
      with r1 r2 show ?thesis by blast
    next
      case 2
      with each show ?thesis by blast
    qed
  qed
  ultimately show ?case by blast
qed

lemma spec_sign_01: "spec_sign v1 v2 = 0 \<or> spec_sign v1 v2 = 1"
  by (simp add: spec_sign_def)

lemma sum_list_01:
  "(\<forall>s \<in> set signs. s = 0 \<or> s = (1::int)) \<Longrightarrow>
   0 \<le> sum_list signs \<and> sum_list signs \<le> int (length signs)"
  by (induction signs) auto

lemma bootstrap_no_trials:
  "n \<le> 0 \<Longrightarrow> two_sample_bootstrap_test sample1 sample2 stat_func n g = Inl ZeroDivisionError"
  by (simp add: two_sample_bootstrap_test_def py_truediv_def)

lemma bootstrap_result:
  assumes "1 \<le> n"
  shows "\<exists>outs g1.
      two_sample_bootstrap_test sample1 sample2 stat_func n g =
        Inr ((real_of_int (sum_list (map snd outs)) / real_of_int n,
              [map fst outs, map (\<lambda>s. Fin (real_of_int s)) (map snd outs)]), g1) \<and>
      length outs = nat n \<and>
      (\<forall>out \<in> set outs. \<exists>r1 r2. resampled_pair sample1 sample2 r1 r2 \<and>
          out = (spec_ratio (stat_func r1) (stat_func r2),
                 spec_sign (stat_func r1) (stat_func r2)))"
proof -
  from trials_outcomes [of "nat n" stat_func sample1 sample2 "[]" "[]" g] obtain outs g1 where
    t: "trials (nat n) stat_func sample1 sample2 ([], [], g) =
          Inr (map fst outs, map snd outs, g1)" and
    len: "length outs = nat n" and
    each: "\<forall>out \<in> set outs. \<exists>r1 r2. resampled_pair sample1 sample2 r1 r2 \<and>
          out = (spec_ratio (stat_func r1) (stat_func r2),
                 spec_sign (stat_func r1) (stat_func r2))"
    by auto
  from assms len have "int (length outs) = n" and "outs \<noteq> []" by auto
  with assms t have "two_sample_bootstrap_test sample1 sample2 stat_func n g =
        Inr ((real_of_int (sum_list (map snd outs)) / real_of_int n,
              [map fst outs, map (\<lambda>s. Fin (real_of_int s)) (map snd outs)]), g1)"
    by (simp add: two_sample_bootstrap_test_def py_truediv_def)
  with len each show ?thesis by blast
qed


lemma resample_full_elems:
  assumes "resample sample (int (length sample)) g = Inr (r, g1)"
  shows "length r = length sample \<and> set r \<subseteq> set sample"
  using resample_full [of sample g] assms by auto

lemma demo_run:
  "\<exists>g1. two_sample_bootstrap_test [1, 1 :: real] [0, 0] (\<lambda>r. Fin (sum_list r)) 2 (\<lambda>k. k) =
     Inr ((1, [[PInf, PInf], [Fin 1, Fin 1]]), g1)"
  by (simp add: two_sample_bootstrap_test_def trial_def resample_def randint_def rng_next_def
      py_truediv_def numeral_2_eq_2 Let_def)

lemma demo_run2:
  "\<exists>g1. two_sample_bootstrap_test [1, 3 :: real] [2, 1] (\<lambda>r. Fin (sum_list r)) 2 (\<lambda>k. k div 4) =
     Inr ((1 / 2, [[Fin (1 / 2), Fin 3], [Fin 0, Fin 1]]), g1)"
  by (simp add: two_sample_bootstrap_test_def trial_def resample_def randint_def rng_next_def
      py_truediv_def numeral_2_eq_2 Let_def)


lemma sum_list_zeros: "set r \<subseteq> {0 :: real} \<Longrightarrow> sum_list r = 0"
  by (induction r) auto

text \<open>
  Claim C1. Whenever trial \<open>i\<close> exists (\<open>i < num_samples\<close>),
  \<open>two_sample_bootstrap_test\<close> returns, and column \<open>i\<close> of the returned array is made
  from the statistics \<open>v1\<close>, \<open>v2\<close> of a pair of resamples of the two samples by the rule:
  if \<open>v2 > 0\<close> the ratio is \<open>v1 / v2\<close> and the sign is \<open>1\<close> if the ratio is greater than
  \<open>1.0\<close>, else \<open>0\<close>; otherwise the ratio is \<open>+infinity\<close> if \<open>v1 > 0.0\<close>, else \<open>0.0\<close>, and
  the sign is \<open>1\<close> if \<open>v1 > 0.0\<close>, else \<open>0\<close>. The statistic is any function, so \<open>v1\<close> and
  \<open>v2\<close> are any values.
\<close>

theorem bootstrap_trial_rule:
  assumes "i < nat n"
  shows "\<exists>p diag g1 r1 r2.
      two_sample_bootstrap_test sample1 sample2 stat_func n g = Inr ((p, diag), g1) \<and>
      resampled_pair sample1 sample2 r1 r2 \<and>
      (if np_gt (stat_func r2) (Fin 0)
       then diag ! 0 ! i = np_div (stat_func r1) (stat_func r2) \<and>
            diag ! 1 ! i = (if np_gt (diag ! 0 ! i) (Fin 1) then Fin 1 else Fin 0)
       else diag ! 0 ! i = (if np_gt (stat_func r1) (Fin 0) then PInf else Fin 0) \<and>
            diag ! 1 ! i = (if np_gt (stat_func r1) (Fin 0) then Fin 1 else Fin 0))"
proof -
  from assms have n: "1 \<le> n" by simp
  from bootstrap_result [OF n, of sample1 sample2 stat_func g] obtain outs g1 where
    res: "two_sample_bootstrap_test sample1 sample2 stat_func n g =
        Inr ((real_of_int (sum_list (map snd outs)) / real_of_int n,
              [map fst outs, map (\<lambda>s. Fin (real_of_int s)) (map snd outs)]), g1)" and
    len: "length outs = nat n" and
    each: "\<forall>out \<in> set outs. \<exists>r1 r2. resampled_pair sample1 sample2 r1 r2 \<and>
          out = (spec_ratio (stat_func r1) (stat_func r2),
                 spec_sign (stat_func r1) (stat_func r2))"
    by blast
  from assms len have i: "i < length outs" by simp
  then have "outs ! i \<in> set outs" by simp
  with each obtain r1 r2 where
    pair: "resampled_pair sample1 sample2 r1 r2" and
    out: "outs ! i = (spec_ratio (stat_func r1) (stat_func r2),
                      spec_sign (stat_func r1) (stat_func r2))"
    by blast
  let ?diag = "[map fst outs, map (\<lambda>s. Fin (real_of_int s)) (map snd outs)]"
  have d0: "?diag ! 0 ! i = spec_ratio (stat_func r1) (stat_func r2)"
    using i out by simp
  have d1: "?diag ! 1 ! i = Fin (real_of_int (spec_sign (stat_func r1) (stat_func r2)))"
    using i out by simp
  have "if np_gt (stat_func r2) (Fin 0)
       then ?diag ! 0 ! i = np_div (stat_func r1) (stat_func r2) \<and>
            ?diag ! 1 ! i = (if np_gt (?diag ! 0 ! i) (Fin 1) then Fin 1 else Fin 0)
       else ?diag ! 0 ! i = (if np_gt (stat_func r1) (Fin 0) then PInf else Fin 0) \<and>
            ?diag ! 1 ! i = (if np_gt (stat_func r1) (Fin 0) then Fin 1 else Fin 0)"
    unfolding d0 d1 by (simp add: spec_ratio_def spec_sign_def)
  with res pair show ?thesis by blast
qed

theorem bootstrap_trial_rule_witness:
  "(1 :: nat) < nat 2
   \<and> (\<exists>p diag g1 r1 r2.
        two_sample_bootstrap_test [1, 3 :: real] [2, 1] (\<lambda>r. Fin (sum_list r)) 2 (\<lambda>k. k div 4) =
          Inr ((p, diag), g1) \<and>
        resampled_pair [1, 3 :: real] [2, 1] r1 r2 \<and>
        (if np_gt (Fin (sum_list r2)) (Fin 0)
         then diag ! 0 ! 1 = np_div (Fin (sum_list r1)) (Fin (sum_list r2)) \<and>
              diag ! 1 ! 1 = (if np_gt (diag ! 0 ! 1) (Fin 1) then Fin 1 else Fin 0)
         else diag ! 0 ! 1 = (if np_gt (Fin (sum_list r1)) (Fin 0) then PInf else Fin 0) \<and>
              diag ! 1 ! 1 = (if np_gt (Fin (sum_list r1)) (Fin 0) then Fin 1 else Fin 0)))
   \<and> (\<exists>g1. two_sample_bootstrap_test [1, 3 :: real] [2, 1] (\<lambda>r. Fin (sum_list r)) 2 (\<lambda>k. k div 4) =
          Inr ((1 / 2, [[Fin (1 / 2), Fin 3], [Fin 0, Fin 1]]), g1))"
proof (intro conjI)
  show h: "(1 :: nat) < nat 2" by simp
  show "\<exists>p diag g1 r1 r2.
        two_sample_bootstrap_test [1, 3 :: real] [2, 1] (\<lambda>r. Fin (sum_list r)) 2 (\<lambda>k. k div 4) =
          Inr ((p, diag), g1) \<and>
        resampled_pair [1, 3 :: real] [2, 1] r1 r2 \<and>
        (if np_gt (Fin (sum_list r2)) (Fin 0)
         then diag ! 0 ! 1 = np_div (Fin (sum_list r1)) (Fin (sum_list r2)) \<and>
              diag ! 1 ! 1 = (if np_gt (diag ! 0 ! 1) (Fin 1) then Fin 1 else Fin 0)
         else diag ! 0 ! 1 = (if np_gt (Fin (sum_list r1)) (Fin 0) then PInf else Fin 0) \<and>
              diag ! 1 ! 1 = (if np_gt (Fin (sum_list r1)) (Fin 0) then Fin 1 else Fin 0))"
    by (rule bootstrap_trial_rule [OF h])
  show "\<exists>g1. two_sample_bootstrap_test [1, 3 :: real] [2, 1] (\<lambda>r. Fin (sum_list r)) 2 (\<lambda>k. k div 4) =
          Inr ((1 / 2, [[Fin (1 / 2), Fin 3], [Fin 0, Fin 1]]), g1)"
    by (rule demo_run2)
qed

text \<open>
  Claim C3. For every two samples, every statistic and every number of trials
  \<open>n \<ge> 1\<close>, \<open>two_sample_bootstrap_test\<close> returns the p-value and an array of two rows of
  length \<open>n\<close> each, the ratios and the signs of the trials in order (column \<open>i\<close> is the
  pair of trial \<open>i\<close>); the p-value is the sum of the signs divided by \<open>n\<close>, and it lies
  between \<open>0\<close> and \<open>1\<close>.
\<close>

theorem bootstrap_p_value:
  assumes "1 \<le> n"
  shows "\<exists>p stats signs g1.
      two_sample_bootstrap_test sample1 sample2 stat_func n g =
        Inr ((p, [stats, map (\<lambda>s. Fin (real_of_int s)) signs]), g1) \<and>
      length stats = nat n \<and> length signs = nat n \<and>
      p = real_of_int (sum_list signs) / real_of_int n \<and>
      0 \<le> p \<and> p \<le> 1"
proof -
  from bootstrap_result [OF assms, of sample1 sample2 stat_func g] obtain outs g1 where
    res: "two_sample_bootstrap_test sample1 sample2 stat_func n g =
        Inr ((real_of_int (sum_list (map snd outs)) / real_of_int n,
              [map fst outs, map (\<lambda>s. Fin (real_of_int s)) (map snd outs)]), g1)" and
    len: "length outs = nat n" and
    each: "\<forall>out \<in> set outs. \<exists>r1 r2. resampled_pair sample1 sample2 r1 r2 \<and>
          out = (spec_ratio (stat_func r1) (stat_func r2),
                 spec_sign (stat_func r1) (stat_func r2))"
    by blast
  have "\<forall>s \<in> set (map snd outs). s = 0 \<or> s = 1"
    using each spec_sign_01 by fastforce
  from sum_list_01 [OF this] len assms
  have lo: "0 \<le> sum_list (map snd outs)" and hi: "sum_list (map snd outs) \<le> n"
    by simp_all
  let ?p = "real_of_int (sum_list (map snd outs)) / real_of_int n"
  from assms have pos: "0 < real_of_int n" by simp
  from lo pos have p0: "0 \<le> ?p" by simp
  from hi pos have p1: "?p \<le> 1" by simp
  show ?thesis
  proof (intro exI conjI)
    show "two_sample_bootstrap_test sample1 sample2 stat_func n g =
        Inr ((?p, [map fst outs, map (\<lambda>s. Fin (real_of_int s)) (map snd outs)]), g1)"
      by (rule res)
    show "length (map fst outs) = nat n" and "length (map snd outs) = nat n"
      using len by simp_all
    show "?p = real_of_int (sum_list (map snd outs)) / real_of_int n" by (rule refl)
    show "0 \<le> ?p" by (rule p0)
    show "?p \<le> 1" by (rule p1)
  qed
qed

theorem bootstrap_p_value_witness:
  "(\<exists>p stats signs g1.
      two_sample_bootstrap_test [1, 3 :: real] [2, 1] (\<lambda>r. Fin (sum_list r)) 2 (\<lambda>k. k div 4) =
        Inr ((p, [stats, map (\<lambda>s. Fin (real_of_int s)) signs]), g1) \<and>
      length stats = nat 2 \<and> length signs = nat 2 \<and>
      p = real_of_int (sum_list signs) / real_of_int 2 \<and>
      0 \<le> p \<and> p \<le> 1)
   \<and> (\<exists>g1. two_sample_bootstrap_test [1, 3 :: real] [2, 1] (\<lambda>r. Fin (sum_list r)) 2 (\<lambda>k. k div 4) =
          Inr ((1 / 2, [[Fin (1 / 2), Fin 3], [Fin 0, Fin 1]]), g1))"
proof (intro conjI)
  show "\<exists>p stats signs g1.
      two_sample_bootstrap_test [1, 3 :: real] [2, 1] (\<lambda>r. Fin (sum_list r)) 2 (\<lambda>k. k div 4) =
        Inr ((p, [stats, map (\<lambda>s. Fin (real_of_int s)) signs]), g1) \<and>
      length stats = nat 2 \<and> length signs = nat 2 \<and>
      p = real_of_int (sum_list signs) / real_of_int 2 \<and>
      0 \<le> p \<and> p \<le> 1"
    by (rule bootstrap_p_value) simp
  show "\<exists>g1. two_sample_bootstrap_test [1, 3 :: real] [2, 1] (\<lambda>r. Fin (sum_list r)) 2 (\<lambda>k. k div 4) =
          Inr ((1 / 2, [[Fin (1 / 2), Fin 3], [Fin 0, Fin 1]]), g1)"
    by (rule demo_run2)
qed

text \<open>
  Claim C9, as amended. \<open>two_sample_bootstrap_test\<close> validates no argument. With zero
  trials requested it raises \<^verbatim>\<open>ZeroDivisionError\<close>: no trial is run and the final
  division by the number of recorded signs fails. With one trial or more it never
  raises, whatever the samples and the statistic; when the statistic of every resample
  of the second sample is zero, each trial records the ratio \<open>+infinity\<close> with sign \<open>1\<close>
  if the statistic \<open>v1\<close> of its first resample is greater than zero, and the ratio
  \<open>0.0\<close> with sign \<open>0\<close> otherwise.
\<close>

theorem bootstrap_failure_policy:
  "two_sample_bootstrap_test sample1 sample2 stat_func 0 g = Inl ZeroDivisionError
   \<and> (1 \<le> n \<longrightarrow> (\<exists>res. two_sample_bootstrap_test sample1 sample2 stat_func n g = Inr res))
   \<and> (1 \<le> n \<and> (\<forall>r. length r = length sample2 \<and> set r \<subseteq> set sample2 \<longrightarrow> stat_func r = Fin 0) \<longrightarrow>
        (\<exists>p stats signs g1.
           two_sample_bootstrap_test sample1 sample2 stat_func n g =
             Inr ((p, [stats, signs]), g1) \<and>
           length stats = nat n \<and> length signs = nat n \<and>
           (\<forall>i < nat n. \<exists>r1. length r1 = length sample1 \<and> set r1 \<subseteq> set sample1 \<and>
              (if np_gt (stat_func r1) (Fin 0)
               then stats ! i = PInf \<and> signs ! i = Fin 1
               else stats ! i = Fin 0 \<and> signs ! i = Fin 0))))"
proof (intro conjI impI)
  show "two_sample_bootstrap_test sample1 sample2 stat_func 0 g = Inl ZeroDivisionError"
    by (rule bootstrap_no_trials) simp
next
  assume "1 \<le> n"
  from bootstrap_result [OF this, of sample1 sample2 stat_func g]
  show "\<exists>res. two_sample_bootstrap_test sample1 sample2 stat_func n g = Inr res"
    by blast
next
  assume a: "1 \<le> n \<and> (\<forall>r. length r = length sample2 \<and> set r \<subseteq> set sample2 \<longrightarrow> stat_func r = Fin 0)"
  then have n: "1 \<le> n" and
    zero: "\<And>r. length r = length sample2 \<Longrightarrow> set r \<subseteq> set sample2 \<Longrightarrow> stat_func r = Fin 0"
    by simp_all
  from bootstrap_result [OF n, of sample1 sample2 stat_func g] obtain outs g1 where
    res: "two_sample_bootstrap_test sample1 sample2 stat_func n g =
        Inr ((real_of_int (sum_list (map snd outs)) / real_of_int n,
              [map fst outs, map (\<lambda>s. Fin (real_of_int s)) (map snd outs)]), g1)" and
    len: "length outs = nat n" and
    each: "\<forall>out \<in> set outs. \<exists>r1 r2. resampled_pair sample1 sample2 r1 r2 \<and>
          out = (spec_ratio (stat_func r1) (stat_func r2),
                 spec_sign (stat_func r1) (stat_func r2))"
    by blast
  let ?stats = "map fst outs" and ?signs = "map (\<lambda>s. Fin (real_of_int s)) (map snd outs)"
  have "\<forall>i < nat n. \<exists>r1. length r1 = length sample1 \<and> set r1 \<subseteq> set sample1 \<and>
              (if np_gt (stat_func r1) (Fin 0)
               then ?stats ! i = PInf \<and> ?signs ! i = Fin 1
               else ?stats ! i = Fin 0 \<and> ?signs ! i = Fin 0)"
  proof (intro allI impI)
    fix i
    assume "i < nat n"
    with len have i: "i < length outs" by simp
    then have "outs ! i \<in> set outs" by simp
    with each obtain r1 r2 ga gb gc where
      r1: "resample sample1 (int (length sample1)) ga = Inr (r1, gb)" and
      r2: "resample sample2 (int (length sample2)) gb = Inr (r2, gc)" and
      out: "outs ! i = (spec_ratio (stat_func r1) (stat_func r2),
                        spec_sign (stat_func r1) (stat_func r2))"
      by blast
    from resample_full_elems [OF r2] have "stat_func r2 = Fin 0"
      by (simp add: zero)
    with out have "outs ! i =
        (if np_gt (stat_func r1) (Fin 0) then (PInf, 1) else (Fin 0, 0))"
      by (simp add: spec_ratio_def spec_sign_def)
    with i have "if np_gt (stat_func r1) (Fin 0)
               then ?stats ! i = PInf \<and> ?signs ! i = Fin 1
               else ?stats ! i = Fin 0 \<and> ?signs ! i = Fin 0"
      by simp
    with resample_full_elems [OF r1]
    show "\<exists>r1. length r1 = length sample1 \<and> set r1 \<subseteq> set sample1 \<and>
              (if np_gt (stat_func r1) (Fin 0)
               then ?stats ! i = PInf \<and> ?signs ! i = Fin 1
               else ?stats ! i = Fin 0 \<and> ?signs ! i = Fin 0)"
      by blast
  qed
  then have "two_sample_bootstrap_test sample1 sample2 stat_func n g =
             Inr ((real_of_int (sum_list (map snd outs)) / real_of_int n, [?stats, ?signs]), g1) \<and>
           length ?stats = nat n \<and> length ?signs = nat n \<and>
           (\<forall>i < nat n. \<exists>r1. length r1 = length sample1 \<and> set r1 \<subseteq> set sample1 \<and>
              (if np_gt (stat_func r1) (Fin 0)
               then ?stats ! i = PInf \<and> ?signs ! i = Fin 1
               else ?stats ! i = Fin 0 \<and> ?signs ! i = Fin 0))"
    using res len by (simp del: map_map)
  then show "\<exists>p stats signs g1.
           two_sample_bootstrap_test sample1 sample2 stat_func n g =
             Inr ((p, [stats, signs]), g1) \<and>
           length stats = nat n \<and> length signs = nat n \<and>
           (\<forall>i < nat n. \<exists>r1. length r1 = length sample1 \<and> set r1 \<subseteq> set sample1 \<and>
              (if np_gt (stat_func r1) (Fin 0)
               then stats ! i = PInf \<and> signs ! i = Fin 1
               else stats ! i = Fin 0 \<and> signs ! i = Fin 0))"
    by (intro exI)
qed

theorem bootstrap_failure_policy_witness:
  "two_sample_bootstrap_test [1, 1 :: real] [0, 0] (\<lambda>r. Fin (sum_list r)) 0 (\<lambda>k. k) =
     Inl ZeroDivisionError
   \<and> (\<exists>p stats signs g1.
        two_sample_bootstrap_test [1, 1 :: real] [0, 0] (\<lambda>r. Fin (sum_list r)) 2 (\<lambda>k. k) =
          Inr ((p, [stats, signs]), g1) \<and>
        length stats = nat 2 \<and> length signs = nat 2 \<and>
        (\<forall>i < nat 2. \<exists>r1. length r1 = length [1, 1 :: real] \<and> set r1 \<subseteq> set [1, 1 :: real] \<and>
           (if np_gt (Fin (sum_list r1)) (Fin 0)
            then stats ! i = PInf \<and> signs ! i = Fin 1
            else stats ! i = Fin 0 \<and> signs ! i = Fin 0)))
   \<and> (\<exists>g1. two_sample_bootstrap_test [1, 1 :: real] [0, 0] (\<lambda>r. Fin (sum_list r)) 2 (\<lambda>k. k) =
          Inr ((1, [[PInf, PInf], [Fin 1, Fin 1]]), g1))"
proof (intro conjI)
  note inst = bootstrap_failure_policy [of "[1, 1 :: real]" "[0, 0]" "\<lambda>r. Fin (sum_list r)" "\<lambda>k. k" 2]
  show "two_sample_bootstrap_test [1, 1 :: real] [0, 0] (\<lambda>r. Fin (sum_list r)) 0 (\<lambda>k. k) =
     Inl ZeroDivisionError"
    by (rule inst [THEN conjunct1])
  have h: "(1 :: int) \<le> 2 \<and>
           (\<forall>r. length r = length [0, 0 :: real] \<and> set r \<subseteq> set [0, 0 :: real]
                 \<longrightarrow> Fin (sum_list r) = Fin 0)"
    by (simp add: sum_list_zeros)
  show "\<exists>p stats signs g1.
        two_sample_bootstrap_test [1, 1 :: real] [0, 0] (\<lambda>r. Fin (sum_list r)) 2 (\<lambda>k. k) =
          Inr ((p, [stats, signs]), g1) \<and>
        length stats = nat 2 \<and> length signs = nat 2 \<and>
        (\<forall>i < nat 2. \<exists>r1. length r1 = length [1, 1 :: real] \<and> set r1 \<subseteq> set [1, 1 :: real] \<and>
           (if np_gt (Fin (sum_list r1)) (Fin 0)
            then stats ! i = PInf \<and> signs ! i = Fin 1
            else stats ! i = Fin 0 \<and> signs ! i = Fin 0))"
    by (rule inst [THEN conjunct2, THEN conjunct2, THEN mp, OF h])
  show "\<exists>g1. two_sample_bootstrap_test [1, 1 :: real] [0, 0] (\<lambda>r. Fin (sum_list r)) 2 (\<lambda>k. k) =
          Inr ((1, [[PInf, PInf], [Fin 1, Fin 1]]), g1)"
    by (rule demo_run)
qed


text \<open>
  The claim as first stated fails twice: at zero trials the exception is
  \<^verbatim>\<open>ZeroDivisionError\<close>, not the \<^verbatim>\<open>ValueError\<close> of an invalid argument, and a zero
  denominator with \<open>v1 = 0\<close> is recorded as the ratio \<open>0.0\<close>, not \<open>+infinity\<close>.
\<close>

theorem bootstrap_failure_policy_counterexample:
  "two_sample_bootstrap_test [1, 1] [0, 0] demo_stat 0 demo_rng = Inl ZeroDivisionError
   \<and> two_sample_bootstrap_test [1, 1] [0, 0] demo_stat 0 demo_rng \<noteq> Inl ValueError
   \<and> map_sum id fst (two_sample_bootstrap_test [0, 0] [0, 0] demo_stat 1 demo_rng) =
       Inr (0, [[Fin 0], [Fin 0]])"
  by (simp add: two_sample_bootstrap_test_def trial_def resample_def randint_def rng_next_def
      py_truediv_def demo_stat_def demo_rng_def numeral_2_eq_2 Let_def)


end
